theory Spec2Isabelle
  imports Main "HOL-Library.Word"
begin

unbundle bit_operations_syntax

section \<open>Strings\<close>

text \<open>
  A Python \<^verbatim>\<open>str\<close> is a sequence of Unicode code points. A code point is a natural
  number, a string a list of them. \<open>str\<close> reads a literal of 8-bit characters as the code
  points U+0000..U+00FF, so that \<open>str ''+1''\<close> is the Python string \<^verbatim>\<open>"+1"\<close>.
\<close>

type_synonym pychar = nat
type_synonym pystr = "nat list"

definition cp :: "char \<Rightarrow> pychar" where
  "cp c = of_char c"

definition str :: "string \<Rightarrow> pystr" where
  "str s = map cp s"

text \<open>\<^verbatim>\<open>s.startswith(p)\<close>.\<close>

definition startswith :: "pystr \<Rightarrow> pystr \<Rightarrow> bool" where
  "startswith s p = (take (length p) s = p)"

text \<open>
  The code points of general category Nd (decimal digit), as ranges with both ends
  included: the characters \<^verbatim>\<open>\d\<close> matches in a \<^verbatim>\<open>str\<close> pattern of Python's \<^verbatim>\<open>re\<close>
  (Unicode 14.0.0, the database of CPython 3.11). The first range is \<^verbatim>\<open>0\<close>..\<^verbatim>\<open>9\<close>.
\<close>

definition nd_ranges :: "(nat \<times> nat) list" where
  "nd_ranges =
    [(0x30, 0x39), (0x660, 0x669), (0x6F0, 0x6F9), (0x7C0, 0x7C9), (0x966, 0x96F),
     (0x9E6, 0x9EF), (0xA66, 0xA6F), (0xAE6, 0xAEF), (0xB66, 0xB6F), (0xBE6, 0xBEF),
     (0xC66, 0xC6F), (0xCE6, 0xCEF), (0xD66, 0xD6F), (0xDE6, 0xDEF), (0xE50, 0xE59),
     (0xED0, 0xED9), (0xF20, 0xF29), (0x1040, 0x1049), (0x1090, 0x1099), (0x17E0, 0x17E9),
     (0x1810, 0x1819), (0x1946, 0x194F), (0x19D0, 0x19D9), (0x1A80, 0x1A89),
     (0x1A90, 0x1A99), (0x1B50, 0x1B59), (0x1BB0, 0x1BB9), (0x1C40, 0x1C49),
     (0x1C50, 0x1C59), (0xA620, 0xA629), (0xA8D0, 0xA8D9), (0xA900, 0xA909),
     (0xA9D0, 0xA9D9), (0xA9F0, 0xA9F9), (0xAA50, 0xAA59), (0xABF0, 0xABF9),
     (0xFF10, 0xFF19), (0x104A0, 0x104A9), (0x10D30, 0x10D39), (0x11066, 0x1106F),
     (0x110F0, 0x110F9), (0x11136, 0x1113F), (0x111D0, 0x111D9), (0x112F0, 0x112F9),
     (0x11450, 0x11459), (0x114D0, 0x114D9), (0x11650, 0x11659), (0x116C0, 0x116C9),
     (0x11730, 0x11739), (0x118E0, 0x118E9), (0x11950, 0x11959), (0x11C50, 0x11C59),
     (0x11D50, 0x11D59), (0x11DA0, 0x11DA9), (0x16A60, 0x16A69), (0x16AC0, 0x16AC9),
     (0x16B50, 0x16B59), (0x1D7CE, 0x1D7FF), (0x1E140, 0x1E149), (0x1E2F0, 0x1E2F9),
     (0x1E950, 0x1E959), (0x1FBF0, 0x1FBF9)]"

definition uni_decimal :: "pychar \<Rightarrow> bool" where
  "uni_decimal c = list_ex (\<lambda>(lo, hi). lo \<le> c \<and> c \<le> hi) nd_ranges"

section \<open>Regular expressions of \<^verbatim>\<open>utils/validators.py\<close>\<close>

text \<open>
  The two patterns of the validators use literals, ranges, \<^verbatim>\<open>\d\<close>, the sets
  \<^verbatim>\<open>[...]\<close> and \<^verbatim>\<open>[^...]\<close>, a bounded repetition \<^verbatim>\<open>{m,n}\<close> of one character, and
  the anchors \<^verbatim>\<open>^\<close> and \<^verbatim>\<open>$\<close>. No flag is given, so \<^verbatim>\<open>^\<close> matches at the start of
  the string only, and \<^verbatim>\<open>$\<close> matches at the end of the string and also just before a
  newline that is the last character of the string.
\<close>

datatype cls = Lit pychar | Range pychar pychar | Digit

datatype atom = One cls | Set "cls list" | NotSet "cls list"

datatype item = Bol | Eol | Atom atom | Rep atom nat nat

fun cls_match :: "cls \<Rightarrow> pychar \<Rightarrow> bool" where
  "cls_match (Lit a) c = (c = a)"
| "cls_match (Range a b) c = (a \<le> c \<and> c \<le> b)"
| "cls_match Digit c = uni_decimal c"

fun atom_match :: "atom \<Rightarrow> pychar \<Rightarrow> bool" where
  "atom_match (One k) c = cls_match k c"
| "atom_match (Set ks) c = list_ex (\<lambda>k. cls_match k c) ks"
| "atom_match (NotSet ks) c = (\<not> list_ex (\<lambda>k. cls_match k c) ks)"

text \<open>
  \<open>match_here p at0 s\<close>: the pattern \<open>p\<close> matches a prefix of \<open>s\<close>, where \<open>at0\<close> says
  that \<open>s\<close> is the whole string (position 0). A repetition tries every count between its
  bounds, which decides the same matches as the engine's greedy search with backtracking.
\<close>

fun match_here :: "item list \<Rightarrow> bool \<Rightarrow> pystr \<Rightarrow> bool" where
  "match_here [] at0 s = True"
| "match_here (Bol # r) at0 s = (at0 \<and> match_here r at0 s)"
| "match_here (Eol # r) at0 s = ((s = [] \<or> s = [10]) \<and> match_here r at0 s)"
| "match_here (Atom a # r) at0 [] = False"
| "match_here (Atom a # r) at0 (c # s) = (atom_match a c \<and> match_here r False s)"
| "match_here (Rep a lo hi # r) at0 [] = (lo = 0 \<and> match_here r at0 [])"
| "match_here (Rep a lo hi # r) at0 (c # s) =
     ((lo = 0 \<and> match_here r at0 (c # s)) \<or>
      (0 < hi \<and> atom_match a c \<and> match_here (Rep a (lo - 1) (hi - 1) # r) False s))"

text \<open>\<^verbatim>\<open>bool(re.match(p, s))\<close>: a match starting at position 0.\<close>

definition re_match :: "item list \<Rightarrow> pystr \<Rightarrow> bool" where
  "re_match p s = match_here p True s"

text \<open>\<^verbatim>\<open>re.sub(a, '', s)\<close> for a pattern \<open>a\<close> of one character: every match is deleted.\<close>

definition re_sub_delete :: "atom \<Rightarrow> pystr \<Rightarrow> pystr" where
  "re_sub_delete a s = filter (\<lambda>c. \<not> atom_match a c) s"

section \<open>Phone numbers: \<^verbatim>\<open>utils/validators.py\<close>\<close>

text \<open>The pattern \<^verbatim>\<open>^\+[1-9]\d{1,14}$\<close>.\<close>

definition e164_pattern :: "item list" where
  "e164_pattern =
     [Bol, Atom (One (Lit (cp CHR ''+''))), Atom (Set [Range (cp CHR ''1'') (cp CHR ''9'')]),
      Rep (One Digit) 1 14, Eol]"

definition validate_phone_number :: "pystr \<Rightarrow> bool" where
  "validate_phone_number phone_number = re_match e164_pattern phone_number"

text \<open>The pattern \<^verbatim>\<open>[^\d+]\<close>, then the sign is put in front when it is not there.\<close>

definition format_phone_number :: "pystr \<Rightarrow> pystr" where
  "format_phone_number phone_number =
     (let cleaned = re_sub_delete (NotSet [Digit, Lit (cp CHR ''+'')]) phone_number
      in if \<not> startswith cleaned (str ''+'') then str ''+'' @ cleaned else cleaned)"

text \<open>The characters the formatter keeps: decimal digits and the sign.\<close>

definition kept :: "pychar \<Rightarrow> bool" where
  "kept c = (uni_decimal c \<or> c = 43)"

text \<open>
  Between \<open>lo\<close> and \<open>hi\<close> decimal digits, then the end of the string or one newline that
  ends it: what \<^verbatim>\<open>\d{lo,hi}$\<close> accepts.
\<close>

definition digits_then_end :: "nat \<Rightarrow> nat \<Rightarrow> pystr \<Rightarrow> bool" where
  "digits_then_end lo hi s =
     (\<exists>ds t. s = ds @ t \<and> lo \<le> length ds \<and> length ds \<le> hi \<and> list_all uni_decimal ds \<and>
        (t = [] \<or> t = [10]))"

section \<open>JSON text: \<^verbatim>\<open>json.dumps\<close> and \<^verbatim>\<open>json.loads\<close>\<close>

text \<open>
  The dispatch requester writes the job metadata with \<^verbatim>\<open>json.dumps\<close> and the worker reads
  it with \<^verbatim>\<open>json.loads\<close>, both of Python's standard library with their default options.
  This section models the two functions: the writer for a dictionary from strings to
  strings, the reader for every text.

  A number with a fraction or an exponent becomes a Python \<^verbatim>\<open>float\<close>; the model keeps the
  decimal it was read from: \<open>Dec m e\<close> stands for the float nearest to \<open>m * 10 ^ e\<close>.
\<close>

datatype pyfloat = Dec int int | NaN | PosInf | NegInf

datatype json =
    JNull | JBool bool | JInt int | JFloat pyfloat | JStr pystr
  | JArr "json list" | JObj "(pystr \<times> json) list"

text \<open>
  The exceptions of the program: \<^verbatim>\<open>ValueError\<close> with its message,
  \<^verbatim>\<open>json.JSONDecodeError\<close>, \<^verbatim>\<open>AttributeError\<close>, \<^verbatim>\<open>TypeError\<close>, \<^verbatim>\<open>RecursionError\<close>, and
  whatever a request to a remote platform raises.
\<close>

datatype exn =
    ValueError pystr | JSONDecodeError | AttributeError | TypeError | RecursionError
  | RemoteError pystr

text \<open>
  The two limits of the interpreter that the reader can meet. \<open>recursion_depth\<close> is the
  number of arrays and objects that may be open at once: what is left of
  \<^verbatim>\<open>sys.getrecursionlimit()\<close> where \<^verbatim>\<open>json.loads\<close> is called. \<open>int_max_str_digits\<close> is
  \<^verbatim>\<open>sys.get_int_max_str_digits()\<close>, 4300 unless it was changed, and 0 for no limit.
\<close>

record limits =
  recursion_depth :: nat
  int_max_str_digits :: nat

subsection \<open>Writing\<close>

text \<open>One lower-case hexadecimal digit, and \<^verbatim>\<open>'{0:04x}'.format(n)\<close> for \<open>n < 0x10000\<close>.\<close>

definition hexdigit :: "nat \<Rightarrow> pychar" where
  "hexdigit d = (if d < 10 then 48 + d else 87 + d)"

definition hex4 :: "nat \<Rightarrow> pystr" where
  "hex4 n = [hexdigit (n div 4096 mod 16), hexdigit (n div 256 mod 16),
             hexdigit (n div 16 mod 16), hexdigit (n mod 16)]"

text \<open>
  \<^verbatim>\<open>ensure_ascii\<close> is on: the quote (34) and the backslash (92) are escaped, the
  characters from space to \<^verbatim>\<open>~\<close> are copied, newline, carriage return, tab, form feed and
  backspace have their letter, every other character of the basic plane is written
  \<^verbatim>\<open>\uXXXX\<close>, and a character beyond it as a surrogate pair. The library computes the pair
  as \<^verbatim>\<open>0xd800 | ((n >> 10) & 0x3ff)\<close> and \<^verbatim>\<open>0xdc00 | (n & 0x3ff)\<close> for
  \<open>n = c - 0x10000\<close>, which are the sums below.
\<close>

definition escape_ascii_char :: "pychar \<Rightarrow> pystr" where
  "escape_ascii_char c =
     (if c = 34 then [92, 34]
      else if c = 92 then [92, 92]
      else if 32 \<le> c \<and> c \<le> 126 then [c]
      else if c = 10 then [92, 110]
      else if c = 13 then [92, 114]
      else if c = 9 then [92, 116]
      else if c = 12 then [92, 102]
      else if c = 8 then [92, 98]
      else if c < 0x10000 then [92, 117] @ hex4 c
      else [92, 117] @ hex4 (0xD800 + (c - 0x10000) div 1024 mod 1024) @
           [92, 117] @ hex4 (0xDC00 + (c - 0x10000) mod 1024))"

definition py_encode_basestring_ascii :: "pystr \<Rightarrow> pystr" where
  "py_encode_basestring_ascii s = [34] @ concat (map escape_ascii_char s) @ [34]"

text \<open>\<^verbatim>\<open>sep.join(xs)\<close>.\<close>

fun join :: "pystr \<Rightarrow> pystr list \<Rightarrow> pystr" where
  "join sep [] = []"
| "join sep [x] = x"
| "join sep (x # y # ys) = x @ sep @ join sep (y # ys)"

text \<open>
  \<^verbatim>\<open>json.dumps(d)\<close> for a dictionary \<open>d\<close> whose keys and values are strings, given as its
  items in order.
\<close>

definition json_dumps :: "(pystr \<times> pystr) list \<Rightarrow> pystr" where
  "json_dumps d =
     str ''{'' @
     join (str '', '')
       (map (\<lambda>(k, v). py_encode_basestring_ascii k @ str '': '' @ py_encode_basestring_ascii v)
          d) @
     str ''}''"

subsection \<open>Reading: strings\<close>

definition hexval :: "pychar \<Rightarrow> nat option" where
  "hexval c =
     (if 48 \<le> c \<and> c \<le> 57 then Some (c - 48)
      else if 97 \<le> c \<and> c \<le> 102 then Some (c - 87)
      else if 65 \<le> c \<and> c \<le> 70 then Some (c - 55)
      else None)"

fun unhex4 :: "pystr \<Rightarrow> nat option" where
  "unhex4 [a, b, c, d] =
     (case (hexval a, hexval b, hexval c, hexval d) of
        (Some x, Some y, Some z, Some w) \<Rightarrow> Some (((x * 16 + y) * 16 + z) * 16 + w)
      | _ \<Rightarrow> None)"
| "unhex4 _ = None"

text \<open>
  The text after \<^verbatim>\<open>\u\<close>: four hexadecimal digits, which must not end the text. A high
  surrogate followed by the escape of a low one is read as one character, when at least
  one more character follows the second escape.
\<close>

definition decode_u :: "pystr \<Rightarrow> (pychar \<times> pystr) option" where
  "decode_u r =
     (if length r < 5 then None
      else case unhex4 (take 4 r) of
        None \<Rightarrow> None
      | Some c \<Rightarrow>
          if 0xD800 \<le> c \<and> c \<le> 0xDBFF \<and> 10 < length r \<and> take 2 (drop 4 r) = [92, 117]
          then (case unhex4 (take 4 (drop 6 r)) of
                  None \<Rightarrow> None
                | Some c2 \<Rightarrow>
                    if 0xDC00 \<le> c2 \<and> c2 \<le> 0xDFFF
                    then Some (0x10000 + (c - 0xD800) * 1024 + (c2 - 0xDC00), drop 10 r)
                    else Some (c, drop 4 r))
          else Some (c, drop 4 r))"

text \<open>The character after a backslash other than \<^verbatim>\<open>u\<close>: one of \<^verbatim>\<open>" \ / b f n r t\<close>.\<close>

definition unescape :: "pychar \<Rightarrow> pychar option" where
  "unescape e =
     (if e = 34 \<or> e = 92 \<or> e = 47 then Some e
      else if e = 98 then Some 8
      else if e = 102 then Some 12
      else if e = 110 then Some 10
      else if e = 114 then Some 13
      else if e = 116 then Some 9
      else None)"

lemma decode_u_shorter: "decode_u r = Some (u, r') \<Longrightarrow> length r' < length r"
  by (auto simp add: decode_u_def split: if_splits option.splits)

text \<open>
  The text after an opening quote, up to the closing one: the string and the text that
  follows it. The reader is strict: a control character inside a string is an error.
\<close>

function scanstring :: "pystr \<Rightarrow> pystr \<Rightarrow> (pystr \<times> pystr) option" where
  "scanstring acc [] = None"
| "scanstring acc (c # cs) =
     (if c = 34 then Some (rev acc, cs)
      else if c = 92 then
        (case cs of
           [] \<Rightarrow> None
         | e # r \<Rightarrow>
             if e = 117 then
               (case decode_u r of
                  None \<Rightarrow> None
                | Some (u, r') \<Rightarrow> scanstring (u # acc) r')
             else
               (case unescape e of
                  None \<Rightarrow> None
                | Some x \<Rightarrow> scanstring (x # acc) r))
      else if c \<le> 31 then None
      else scanstring (c # acc) cs)"
  by pat_completeness auto
termination
  by (relation "measure (\<lambda>(acc, s). length s)") (auto dest: decode_u_shorter)

subsection \<open>Reading: numbers and constants\<close>

definition is_ws :: "pychar \<Rightarrow> bool" where
  "is_ws c = (c = 32 \<or> c = 9 \<or> c = 10 \<or> c = 13)"

definition is_digit :: "pychar \<Rightarrow> bool" where
  "is_digit c = (48 \<le> c \<and> c \<le> 57)"

definition digits_value :: "pystr \<Rightarrow> int" where
  "digits_value ds = foldl (\<lambda>n c. n * 10 + int (c - 48)) 0 ds"

text \<open>\<^verbatim>\<open>str(n)\<close> for a natural number.\<close>

function decimal :: "nat \<Rightarrow> pystr" where
  "decimal n = (if n < 10 then [48 + n] else decimal (n div 10) @ [48 + n mod 10])"
  by pat_completeness auto
termination
  by (relation "measure id") auto

declare decimal.simps [simp del]

text \<open>
  \<^verbatim>\<open>int\<close> of the digits of a literal without fraction and exponent: a literal of more
  digits than the limit raises \<^verbatim>\<open>ValueError\<close>. The sign does not count.
\<close>

definition int_from_digits :: "nat \<Rightarrow> int \<Rightarrow> pystr \<Rightarrow> exn + json" where
  "int_from_digits max_digits sign ds =
     (if 0 < max_digits \<and> max_digits < length ds
      then Inl (ValueError
                  (str ''Exceeds the limit ('' @ decimal max_digits @
                   str '' digits) for integer string conversion: value has '' @
                   decimal (length ds) @
                   str '' digits; use sys.set_int_max_str_digits() to increase the limit''))
      else Inr (JInt (sign * digits_value ds)))"

text \<open>The integer part: \<^verbatim>\<open>0\<close> alone, or a digit \<^verbatim>\<open>1\<close>..\<^verbatim>\<open>9\<close> and every digit after it.\<close>

definition scan_int :: "pystr \<Rightarrow> (pystr \<times> pystr) option" where
  "scan_int s =
     (case s of
        [] \<Rightarrow> None
      | c # r \<Rightarrow>
          if 49 \<le> c \<and> c \<le> 57 then Some (c # takeWhile is_digit r, dropWhile is_digit r)
          else if c = 48 then Some ([c], r)
          else None)"

text \<open>The fraction: a point and at least one digit.\<close>

definition scan_frac :: "pystr \<Rightarrow> (pystr \<times> pystr) option" where
  "scan_frac s =
     (case s of
        c # d # r \<Rightarrow>
          if c = 46 \<and> is_digit d then Some (d # takeWhile is_digit r, dropWhile is_digit r)
          else None
      | _ \<Rightarrow> None)"

text \<open>
  The exponent: \<^verbatim>\<open>e\<close> or \<^verbatim>\<open>E\<close>, a sign that is not the last character, and at least one
  digit; without a digit nothing is read.
\<close>

definition scan_exp :: "pystr \<Rightarrow> (int \<times> pystr) option" where
  "scan_exp s =
     (case s of
        [] \<Rightarrow> None
      | c # r \<Rightarrow>
          if c = 101 \<or> c = 69 then
            (let (neg, r1) =
                   (case r of
                      x # y # r' \<Rightarrow> if x = 45 \<or> x = 43 then (x = 45, y # r') else (False, r)
                    | _ \<Rightarrow> (False, r))
             in if takeWhile is_digit r1 = [] then None
                else Some ((if neg then - 1 else 1) * digits_value (takeWhile is_digit r1),
                           dropWhile is_digit r1))
          else None)"

text \<open>
  A number, and the text after it: the literal is delimited first and converted then, so
  the conversion of a delimited literal can raise.
\<close>

definition match_number :: "nat \<Rightarrow> pystr \<Rightarrow> ((exn + json) \<times> pystr) option" where
  "match_number max_digits s =
     (let (neg, s1) =
            (case s of c # r \<Rightarrow> if c = 45 then (True, r) else (False, s) | [] \<Rightarrow> (False, s))
      in case scan_int s1 of
           None \<Rightarrow> None
         | Some (ip, s2) \<Rightarrow>
             let (fp, s3) = (case scan_frac s2 of None \<Rightarrow> ([], s2) | Some (f, r) \<Rightarrow> (f, r));
                 sign = (if neg then - 1 else 1)
             in case scan_exp s3 of
                  None \<Rightarrow>
                    if fp = [] then Some (int_from_digits max_digits sign ip, s3)
                    else Some (Inr (JFloat (Dec (sign * digits_value (ip @ fp))
                                              (- int (length fp)))), s3)
                | Some (e, s4) \<Rightarrow>
                    Some (Inr (JFloat (Dec (sign * digits_value (ip @ fp))
                                         (e - int (length fp)))), s4))"

definition strip_prefix :: "pystr \<Rightarrow> pystr \<Rightarrow> pystr option" where
  "strip_prefix p s = (if startswith s p then Some (drop (length p) s) else None)"

text \<open>The constants, with the three that Python accepts beyond the JSON grammar.\<close>

definition scan_constant :: "pystr \<Rightarrow> (json \<times> pystr) option" where
  "scan_constant s =
     (case strip_prefix (str ''null'') s of Some r \<Rightarrow> Some (JNull, r) | None \<Rightarrow>
      case strip_prefix (str ''true'') s of Some r \<Rightarrow> Some (JBool True, r) | None \<Rightarrow>
      case strip_prefix (str ''false'') s of Some r \<Rightarrow> Some (JBool False, r) | None \<Rightarrow>
      case strip_prefix (str ''NaN'') s of Some r \<Rightarrow> Some (JFloat NaN, r) | None \<Rightarrow>
      case strip_prefix (str ''Infinity'') s of Some r \<Rightarrow> Some (JFloat PosInf, r) | None \<Rightarrow>
      case strip_prefix (str ''-Infinity'') s of Some r \<Rightarrow> Some (JFloat NegInf, r) | None \<Rightarrow>
      None)"

text \<open>
  A value that is not an array or an object, or the exception its conversion raises, and
  the text after it.
\<close>

definition scan_atom :: "nat \<Rightarrow> pystr \<Rightarrow> ((exn + json) \<times> pystr) option" where
  "scan_atom max_digits s =
     (case s of
        [] \<Rightarrow> None
      | c # r \<Rightarrow>
          if c = 34 then
            (case scanstring [] r of None \<Rightarrow> None | Some (x, r') \<Rightarrow> Some (Inr (JStr x), r'))
          else
            (case scan_constant s of
               Some (v, r') \<Rightarrow> Some (Inr v, r')
             | None \<Rightarrow> match_number max_digits s))"

subsection \<open>Reading: tokens\<close>

text \<open>
  \<open>TRaise e\<close> stands where the text has no token (\<open>e\<close> is \<^verbatim>\<open>JSONDecodeError\<close> then) or a
  value whose conversion raises \<open>e\<close>.
\<close>

datatype token =
    TLBrace | TRBrace | TLBrack | TRBrack | TColon | TComma | TVal json | TRaise exn

definition punct :: "pychar \<Rightarrow> token option" where
  "punct c =
     (if c = 123 then Some TLBrace else if c = 125 then Some TRBrace
      else if c = 91 then Some TLBrack else if c = 93 then Some TRBrack
      else if c = 58 then Some TColon else if c = 44 then Some TComma
      else None)"

text \<open>Every scanner consumes at least one character, so splitting into tokens ends.\<close>

lemma scanstring_shorter: "scanstring acc s = Some (x, r) \<Longrightarrow> length r < length s"
proof (induction s arbitrary: acc rule: length_induct)
  case (1 s)
  note IH = "1.IH" [rule_format]
  show ?case
  proof (cases s)
    case Nil
    with "1.prems" show ?thesis by simp
  next
    case (Cons c cs)
    show ?thesis
    proof (cases "c = 34")
      case True
      with Cons "1.prems" show ?thesis by simp
    next
      case nq: False
      show ?thesis
      proof (cases "c = 92")
        case False
        with nq Cons "1.prems" have "scanstring (c # acc) cs = Some (x, r)"
          by (simp split: if_splits)
        from IH [OF _ this] Cons show ?thesis by simp
      next
        case True
        with Cons "1.prems" obtain e t where cs: "cs = e # t"
          by (cases cs) simp_all
        show ?thesis
        proof (cases "e = 117")
          case True
          with \<open>c = 92\<close> cs Cons "1.prems" obtain u t' where
            d: "decode_u t = Some (u, t')" and k: "scanstring (u # acc) t' = Some (x, r)"
            by (auto split: option.splits)
          from decode_u_shorter [OF d] have "length t' < length s" using Cons cs by simp
          from IH [OF this k] decode_u_shorter [OF d] Cons cs show ?thesis by simp
        next
          case False
          with \<open>c = 92\<close> cs Cons "1.prems" obtain y where
            k: "scanstring (y # acc) t = Some (x, r)"
            by (auto split: option.splits)
          have "length t < length s" using Cons cs by simp
          from IH [OF this k] Cons cs show ?thesis by simp
        qed
      qed
    qed
  qed
qed

lemma strip_prefix_shorter:
  "strip_prefix p s = Some r \<Longrightarrow> p \<noteq> [] \<Longrightarrow> length r < length s"
proof -
  assume a: "strip_prefix p s = Some r" and p: "p \<noteq> []"
  then have t: "take (length p) s = p" and r: "r = drop (length p) s"
    by (auto simp add: strip_prefix_def startswith_def split: if_splits)
  from t have "length p \<le> length s" by (metis length_take min.cobounded1)
  with p r show ?thesis by (cases p) auto
qed

lemma scan_constant_shorter: "scan_constant s = Some (v, r) \<Longrightarrow> length r < length s"
  by (auto simp add: scan_constant_def str_def split: option.splits
      dest!: strip_prefix_shorter)

lemma scan_int_shorter: "scan_int s = Some (ip, r) \<Longrightarrow> length r < length s"
  by (auto simp add: scan_int_def less_Suc_eq_le length_dropWhile_le
      split: list.splits if_splits)

lemma scan_frac_shorter: "scan_frac s = Some (fp, r) \<Longrightarrow> length r < length s"
  by (auto simp add: scan_frac_def less_Suc_eq_le intro: le_SucI length_dropWhile_le
      split: list.splits if_splits)

lemma scan_exp_shorter: "scan_exp s = Some (e, r) \<Longrightarrow> length r < length s"
  by (auto simp add: scan_exp_def less_Suc_eq_le Let_def intro: le_SucI length_dropWhile_le
      split: list.splits if_splits)

lemma match_number_shorter: "match_number m s = Some (v, r) \<Longrightarrow> length r < length s"
  by (auto simp add: match_number_def Let_def
      split: list.splits if_splits option.splits prod.splits
      dest!: scan_int_shorter scan_frac_shorter scan_exp_shorter)

lemma scan_atom_shorter: "scan_atom m s = Some (v, r) \<Longrightarrow> length r < length s"
  by (auto simp add: scan_atom_def split: list.splits if_splits option.splits
      dest!: scanstring_shorter scan_constant_shorter match_number_shorter)

text \<open>
  The text as tokens, up to the first \<open>TRaise\<close>. White space may stand between any two
  tokens, and before the first and after the last.
\<close>

function lex :: "nat \<Rightarrow> pystr \<Rightarrow> token list" where
  "lex m [] = []"
| "lex m (c # cs) =
     (if is_ws c then lex m cs
      else case punct c of
        Some t \<Rightarrow> t # lex m cs
      | None \<Rightarrow>
          (case scan_atom m (c # cs) of
             None \<Rightarrow> [TRaise JSONDecodeError]
           | Some (Inl e, r) \<Rightarrow> [TRaise e]
           | Some (Inr v, r) \<Rightarrow> TVal v # lex m r))"
  by pat_completeness auto
termination
  by (relation "measure (\<lambda>(m, s). length s)") (auto dest: scan_atom_shorter)

subsection \<open>Reading: values\<close>

text \<open>
  The parser reads the tokens from left to right with a stack of the arrays and objects
  that are open: \<open>InArr\<close> and \<open>InObj\<close> hold the members read so far, last first, and
  \<open>InKey\<close> also the key whose value is being read. An object keeps its items in the order
  of the text; a key that occurs twice occurs twice (a lookup takes the last).

  The first token that does not fit ends the reading with \<^verbatim>\<open>JSONDecodeError\<close>. Where a
  value is expected, a value whose conversion raises ends it with that exception, and an
  array or object that would be open beyond the \<open>depth\<close> allowed with
  \<^verbatim>\<open>RecursionError\<close>.
\<close>

datatype frame =
    InArr "json list"
  | InObj "(pystr \<times> json) list"
  | InKey "(pystr \<times> json) list" pystr

datatype expect = EValue | EValueOrEnd | EKeyOrEnd | EKey | EColon | ECommaOrEnd | EDone json

fun push_value :: "json \<Rightarrow> frame list \<Rightarrow> (expect \<times> frame list) option" where
  "push_value v [] = Some (EDone v, [])"
| "push_value v (InArr xs # st) = Some (ECommaOrEnd, InArr (v # xs) # st)"
| "push_value v (InKey kvs k # st) = Some (ECommaOrEnd, InObj ((k, v) # kvs) # st)"
| "push_value v (InObj kvs # st) = None"

definition or_decode_error :: "'a option \<Rightarrow> exn + 'a" where
  "or_decode_error x = (case x of None \<Rightarrow> Inl JSONDecodeError | Some y \<Rightarrow> Inr y)"

fun begin_value :: "nat \<Rightarrow> frame list \<Rightarrow> token \<Rightarrow> exn + (expect \<times> frame list)" where
  "begin_value depth st (TVal v) = or_decode_error (push_value v st)"
| "begin_value depth st TLBrack =
     (if depth \<le> length st then Inl RecursionError else Inr (EValueOrEnd, InArr [] # st))"
| "begin_value depth st TLBrace =
     (if depth \<le> length st then Inl RecursionError else Inr (EKeyOrEnd, InObj [] # st))"
| "begin_value depth st (TRaise e) = Inl e"
| "begin_value depth st t = Inl JSONDecodeError"

fun begin_key :: "frame list \<Rightarrow> token \<Rightarrow> (expect \<times> frame list) option" where
  "begin_key (InObj kvs # st) (TVal (JStr k)) = Some (EColon, InKey kvs k # st)"
| "begin_key st t = None"

fun close_arr :: "frame list \<Rightarrow> (expect \<times> frame list) option" where
  "close_arr (InArr xs # st) = push_value (JArr (rev xs)) st"
| "close_arr st = None"

fun close_obj :: "frame list \<Rightarrow> (expect \<times> frame list) option" where
  "close_obj (InObj kvs # st) = push_value (JObj (rev kvs)) st"
| "close_obj st = None"

fun after_comma :: "frame list \<Rightarrow> (expect \<times> frame list) option" where
  "after_comma (InArr xs # st) = Some (EValue, InArr xs # st)"
| "after_comma (InObj kvs # st) = Some (EKey, InObj kvs # st)"
| "after_comma st = None"

fun step :: "nat \<Rightarrow> expect \<Rightarrow> frame list \<Rightarrow> token \<Rightarrow> exn + (expect \<times> frame list)" where
  "step depth EValue st t = begin_value depth st t"
| "step depth EValueOrEnd st t =
     (if t = TRBrack then or_decode_error (close_arr st) else begin_value depth st t)"
| "step depth EKeyOrEnd st t =
     or_decode_error (if t = TRBrace then close_obj st else begin_key st t)"
| "step depth EKey st t = or_decode_error (begin_key st t)"
| "step depth EColon st t = (if t = TColon then Inr (EValue, st) else Inl JSONDecodeError)"
| "step depth ECommaOrEnd st t =
     or_decode_error
       (if t = TComma then after_comma st
        else if t = TRBrack then close_arr st
        else if t = TRBrace then close_obj st
        else None)"
| "step depth (EDone v) st t = Inl JSONDecodeError"

fun run :: "nat \<Rightarrow> expect \<Rightarrow> frame list \<Rightarrow> token list \<Rightarrow> exn + json" where
  "run depth e st [] = (case e of EDone v \<Rightarrow> Inr v | _ \<Rightarrow> Inl JSONDecodeError)"
| "run depth e st (t # ts) =
     (case step depth e st t of Inl x \<Rightarrow> Inl x | Inr (e', st') \<Rightarrow> run depth e' st' ts)"

text \<open>
  \<^verbatim>\<open>json.loads(s)\<close> for a \<^verbatim>\<open>str\<close>: the value, or the exception. A text that starts with a
  byte order mark is refused.
\<close>

definition json_loads :: "limits \<Rightarrow> pystr \<Rightarrow> exn + json" where
  "json_loads lim s =
     (if startswith s [0xFEFF] then Inl JSONDecodeError
      else run (recursion_depth lim) EValue [] (lex (int_max_str_digits lim) s))"

text \<open>The characters the writer and the reader agree on: code points that are no surrogates.\<close>

definition safe :: "pychar \<Rightarrow> bool" where
  "safe c = (c < 0x110000 \<and> (c < 0xD800 \<or> 0xDFFF < c))"

section \<open>Python values\<close>

text \<open>
  The truth value of a value read from JSON, as \<^verbatim>\<open>not x\<close> tests it. A float is false
  when it is zero: the decimal \<open>m * 10 ^ e\<close> rounds to zero when it is at most \<open>2 ^ - 1075\<close>
  in absolute value.
\<close>

fun float_nonzero :: "pyfloat \<Rightarrow> bool" where
  "float_nonzero (Dec m e) = (if 0 \<le> e then m \<noteq> 0 else 10 ^ nat (- e) < \<bar>m\<bar> * 2 ^ 1075)"
| "float_nonzero NaN = True"
| "float_nonzero PosInf = True"
| "float_nonzero NegInf = True"

fun truthy :: "json \<Rightarrow> bool" where
  "truthy JNull = False"
| "truthy (JBool b) = b"
| "truthy (JInt n) = (n \<noteq> 0)"
| "truthy (JFloat f) = float_nonzero f"
| "truthy (JStr s) = (s \<noteq> [])"
| "truthy (JArr xs) = (xs \<noteq> [])"
| "truthy (JObj kvs) = (kvs \<noteq> [])"

text \<open>\<^verbatim>\<open>d.get(k)\<close>: the value of the last item with key \<open>k\<close>, \<^verbatim>\<open>None\<close> (here \<open>JNull\<close>) without one.\<close>

definition dict_get :: "(pystr \<times> json) list \<Rightarrow> pystr \<Rightarrow> json" where
  "dict_get kvs k = (case map_of (rev kvs) k of None \<Rightarrow> JNull | Some v \<Rightarrow> v)"

text \<open>
  An optional string argument: \<^verbatim>\<open>not x\<close> holds for \<^verbatim>\<open>None\<close> and for the empty string, and
  \<^verbatim>\<open>x or d\<close> is \<open>d\<close> then.
\<close>

definition is_falsy :: "pystr option \<Rightarrow> bool" where
  "is_falsy x = (x = None \<or> x = Some [])"

definition or_else :: "pystr option \<Rightarrow> pystr \<Rightarrow> pystr" where
  "or_else x d = (case x of None \<Rightarrow> d | Some s \<Rightarrow> if s = [] then d else s)"

section \<open>The media platform: \<^verbatim>\<open>services/dispatch_service.py\<close>, \<^verbatim>\<open>services/sip_manager.py\<close>\<close>

text \<open>
  The two requests the program sends, and the record the dispatch requester returns. A
  run of the program is described by the events it causes, in order: the requests it
  sends and the pauses it makes. The platform is a parameter: a function from each request
  to the platform's answer, an exception or the identifier of what was created
  (\<^verbatim>\<open>dispatch.id\<close>, \<^verbatim>\<open>participant.participant_identity\<close>).
\<close>

record dispatch_request =
  req_agent_name :: pystr
  req_room :: pystr
  req_metadata :: pystr

record sip_participant_request =
  sip_trunk_id :: "pystr option"
  sip_call_to :: pystr
  sip_room_name :: pystr
  sip_participant_identity :: pystr
  sip_participant_name :: pystr

record dispatch_info =
  info_dispatch_id :: pystr
  info_room_name :: pystr
  info_phone_number :: pystr
  info_agent_name :: pystr

datatype event =
    CreateDispatch dispatch_request
  | CreateSIPParticipant sip_participant_request
  | Sleep nat

record livekit_api =
  create_dispatch :: "dispatch_request \<Rightarrow> exn + pystr"
  create_sip_participant :: "sip_participant_request \<Rightarrow> exn + pystr"

text \<open>
  \<^verbatim>\<open>uuid.uuid4()\<close> takes 16 random bytes, here the parameter, and sets the variant and the
  version; \<^verbatim>\<open>.hex\<close> is the number in 32 lower-case hexadecimal digits.
\<close>

definition uuid4 :: "128 word \<Rightarrow> 128 word" where
  "uuid4 r =
     (((r AND NOT (push_bit 48 0xc000)) OR push_bit 48 0x8000) AND NOT (push_bit 64 0xf000))
       OR push_bit 76 4"

definition uuid_hex :: "128 word \<Rightarrow> pystr" where
  "uuid_hex u = map (\<lambda>i. hexdigit (unat u div 16 ^ (31 - i) mod 16)) [0..<32]"

text \<open>
  \<^verbatim>\<open>DispatchService.dispatch_outbound_call\<close>. \<open>AGENT_NAME\<close> is the configured name and
  \<open>urandom\<close> the random bytes of this call.
\<close>

definition dispatch_outbound_call ::
  "livekit_api \<Rightarrow> pystr \<Rightarrow> 128 word \<Rightarrow> pystr \<Rightarrow> pystr option \<Rightarrow> pystr option \<Rightarrow>
     event list \<times> (exn + dispatch_info)" where
  "dispatch_outbound_call api AGENT_NAME urandom phone_number room_name agent_name =
     (let phone_number = format_phone_number phone_number in
      if \<not> validate_phone_number phone_number
      then ([], Inl (ValueError (str ''Invalid phone number format: '' @ phone_number)))
      else
        let room_name = (if is_falsy room_name
                         then str ''outbound-call-'' @ take 8 (uuid_hex (uuid4 urandom))
                         else the room_name);
            agent_name = (if is_falsy agent_name then AGENT_NAME else the agent_name);
            metadata = json_dumps [(str ''phone_number'', phone_number)];
            request = \<lparr>req_agent_name = agent_name, req_room = room_name,
                       req_metadata = metadata\<rparr>
        in case create_dispatch api request of
             Inl e \<Rightarrow> ([CreateDispatch request], Inl e)
           | Inr dispatch_id \<Rightarrow>
               ([CreateDispatch request],
                Inr \<lparr>info_dispatch_id = dispatch_id, info_room_name = room_name,
                     info_phone_number = phone_number, info_agent_name = agent_name\<rparr>))"

text \<open>\<^verbatim>\<open>SIPManager.create_outbound_call\<close>.\<close>

definition create_outbound_call ::
  "livekit_api \<Rightarrow> pystr \<Rightarrow> pystr \<Rightarrow> pystr \<Rightarrow> pystr option \<Rightarrow> pystr option \<Rightarrow>
     event list \<times> (exn + pystr)" where
  "create_outbound_call api phone_number room_name trunk_id participant_identity
     participant_name =
     (let phone_number = format_phone_number phone_number in
      if \<not> validate_phone_number phone_number
      then ([], Inl (ValueError (str ''Invalid phone number format: '' @ phone_number)))
      else
        let request =
              \<lparr>sip_trunk_id = Some trunk_id, sip_call_to = phone_number,
               sip_room_name = room_name,
               sip_participant_identity =
                 or_else participant_identity (str ''caller-'' @ phone_number),
               sip_participant_name = or_else participant_name phone_number\<rparr>
        in ([CreateSIPParticipant request], create_sip_participant api request))"

section \<open>The test-call workflows: \<^verbatim>\<open>scripts/test_call.py\<close>, \<^verbatim>\<open>test_outbound.py\<close>\<close>

text \<open>
  \<^verbatim>\<open>make_test_call\<close>. \<open>env_trunk_id\<close> is the environment's
  \<^verbatim>\<open>LIVEKIT_OUTBOUND_TRUNK_ID\<close>. Closing the two services sends no request.
\<close>

definition make_test_call ::
  "livekit_api \<Rightarrow> pystr \<Rightarrow> 128 word \<Rightarrow> pystr option \<Rightarrow> pystr \<Rightarrow> pystr option \<Rightarrow>
     event list \<times> (exn + unit)" where
  "make_test_call api AGENT_NAME urandom env_trunk_id phone_number trunk_id =
     (case dispatch_outbound_call api AGENT_NAME urandom phone_number None None of
        (ev1, Inl e) \<Rightarrow> (ev1, Inl e)
      | (ev1, Inr dispatch_info) \<Rightarrow>
          let trunk_id = (if is_falsy trunk_id then env_trunk_id else trunk_id) in
          if is_falsy trunk_id
          then (ev1 @ [Sleep 5],
                Inl (ValueError
                  (str ''No trunk_id provided and LIVEKIT_OUTBOUND_TRUNK_ID not set in .env'')))
          else
            (case create_outbound_call api phone_number (info_room_name dispatch_info)
                    (the trunk_id) None None of
               (ev2, Inl e) \<Rightarrow> (ev1 @ [Sleep 5] @ ev2, Inl e)
             | (ev2, Inr participant) \<Rightarrow> (ev1 @ [Sleep 5] @ ev2, Inr ())))"

text \<open>
  \<^verbatim>\<open>make_call\<close> of \<^verbatim>\<open>test_outbound.py\<close> builds both requests itself, from the number as
  given.
\<close>

definition make_call ::
  "livekit_api \<Rightarrow> 128 word \<Rightarrow> pystr option \<Rightarrow> pystr \<Rightarrow> event list \<times> (exn + unit)" where
  "make_call lk urandom env_trunk_id phone_number =
     (let room_name = str ''outbound-call-'' @ take 8 (uuid_hex (uuid4 urandom));
          metadata = json_dumps [(str ''phone_number'', phone_number)];
          request = \<lparr>req_agent_name = str ''telephony-agent'', req_room = room_name,
                     req_metadata = metadata\<rparr>
      in case create_dispatch lk request of
           Inl e \<Rightarrow> ([CreateDispatch request], Inl e)
         | Inr dispatch_id \<Rightarrow>
             let call = \<lparr>sip_trunk_id = env_trunk_id, sip_call_to = phone_number,
                         sip_room_name = room_name,
                         sip_participant_identity = str ''caller-'' @ phone_number,
                         sip_participant_name = phone_number\<rparr>
             in case create_sip_participant lk call of
                  Inl e \<Rightarrow> ([CreateDispatch request, Sleep 5, CreateSIPParticipant call], Inl e)
                | Inr participant \<Rightarrow>
                    ([CreateDispatch request, Sleep 5, CreateSIPParticipant call], Inr ()))"

section \<open>The worker entrypoint: \<^verbatim>\<open>voice_agent.py\<close>, \<^verbatim>\<open>agent/agent.py\<close>\<close>

text \<open>
  What the entrypoint does with the room and the session, in order. Connecting, starting
  the session and registering a handler are the transport library's; they are taken to
  succeed, as their outcome does not depend on the metadata. (The two handlers that
  \<^verbatim>\<open>agent/agent.py\<close> registers are coroutine functions; a library that refuses those
  would end that entrypoint at the first registration, whatever the metadata.)
\<close>

datatype action = Connect | StartSession | RoomOn pystr | GenerateReply "(pystr \<times> pystr) list"

definition greeting :: pystr where
  "greeting = str ''Hello! This is your AI assistant. How can I help you today?''"

text \<open>
  \<^verbatim>\<open>AgentSession.generate_reply\<close> of the agents library is declared with the parameters
  \<^verbatim>\<open>(self, *, user_input, instructions, tool_choice, allow_interruptions)\<close>, each with a
  default: after \<^verbatim>\<open>self\<close> it takes keyword arguments only. A call with a positional
  argument, or with a keyword it does not have, raises \<^verbatim>\<open>TypeError\<close> before the method
  runs. \<open>args\<close> are the positional arguments of the call and \<open>kwargs\<close> its keyword
  arguments.
\<close>

definition generate_reply_keywords :: "pystr list" where
  "generate_reply_keywords =
     [str ''user_input'', str ''instructions'', str ''tool_choice'', str ''allow_interruptions'']"

definition generate_reply :: "pystr list \<Rightarrow> (pystr \<times> pystr) list \<Rightarrow> exn + action list" where
  "generate_reply args kwargs =
     (if args \<noteq> [] then Inl TypeError
      else if \<not> list_all (\<lambda>k. k \<in> set generate_reply_keywords) (map fst kwargs) then Inl TypeError
      else Inr [GenerateReply kwargs])"

text \<open>
  The first block of both entrypoints: the variable \<^verbatim>\<open>phone_number\<close> after it (\<open>JNull\<close>
  for \<^verbatim>\<open>None\<close>), or the exception that leaves the entrypoint. Only
  \<^verbatim>\<open>json.JSONDecodeError\<close> is caught; \<^verbatim>\<open>metadata.get\<close> on a value that is not a
  dictionary raises \<^verbatim>\<open>AttributeError\<close>.
\<close>

definition job_phone_number :: "limits \<Rightarrow> pystr option \<Rightarrow> exn + json" where
  "job_phone_number lim metadata =
     (if is_falsy metadata then Inr JNull
      else case json_loads lim (the metadata) of
        Inl e \<Rightarrow> if e = JSONDecodeError then Inr JNull else Inl e
      | Inr (JObj d) \<Rightarrow> Inr (dict_get d (str ''phone_number''))
      | Inr v \<Rightarrow> Inl AttributeError)"

text \<open>
  The last block of both entrypoints: without a phone number the greeting is passed to
  \<^verbatim>\<open>generate_reply\<close> as its one positional argument; with one, nothing is done.
\<close>

definition greet_or_wait :: "json \<Rightarrow> exn + action list" where
  "greet_or_wait phone_number =
     (if \<not> truthy phone_number then generate_reply [greeting] [] else Inr [])"

text \<open>
  \<^verbatim>\<open>entrypoint\<close> of \<^verbatim>\<open>voice_agent.py\<close>: the recovered number and the actions, or the
  exception that leaves it.
\<close>

definition voice_agent_entrypoint :: "limits \<Rightarrow> pystr option \<Rightarrow> exn + json \<times> action list" where
  "voice_agent_entrypoint lim metadata =
     (case job_phone_number lim metadata of
        Inl e \<Rightarrow> Inl e
      | Inr phone_number \<Rightarrow>
          (case greet_or_wait phone_number of
             Inl e \<Rightarrow> Inl e
           | Inr reply \<Rightarrow> Inr (phone_number, [Connect, StartSession] @ reply)))"

text \<open>\<^verbatim>\<open>entrypoint\<close> of \<^verbatim>\<open>agent/agent.py\<close>, which also registers two handlers on the room.\<close>

definition agent_entrypoint :: "limits \<Rightarrow> pystr option \<Rightarrow> exn + json \<times> action list" where
  "agent_entrypoint lim metadata =
     (case job_phone_number lim metadata of
        Inl e \<Rightarrow> Inl e
      | Inr phone_number \<Rightarrow>
          (case greet_or_wait phone_number of
             Inl e \<Rightarrow> Inl e
           | Inr reply \<Rightarrow>
               Inr (phone_number,
                    [Connect, StartSession, RoomOn (str ''participant_connected''),
                     RoomOn (str ''participant_disconnected'')] @ reply)))"

section \<open>The telephony provider: \<^verbatim>\<open>scripts/setup_twilio_trunk.py\<close>, \<^verbatim>\<open>scripts/update_twilio_trunk_auto.py\<close>\<close>

text \<open>\<^verbatim>\<open>sub in s\<close> for strings: \<open>sub\<close> occurs in \<open>s\<close>.\<close>

fun py_in :: "pystr \<Rightarrow> pystr \<Rightarrow> bool" where
  "py_in sub [] = (sub = [])"
| "py_in sub (c # s) = (startswith (c # s) sub \<or> py_in sub s)"

text \<open>
  The provider's account, as far as the two scripts read and write it: the trunks, the
  credential lists and their credentials, and per trunk the associated credential lists,
  the origination URLs and the phone numbers, the latter taken from the numbers the
  account owns. Identifiers are numbers; \<open>next_sid\<close> is the next one the provider gives
  out. A listing returns the resources in the order of their creation.
\<close>

type_synonym sid = nat

record origination_url =
  ou_friendly_name :: pystr
  ou_sip_url :: pystr
  ou_priority :: nat
  ou_weight :: nat
  ou_enabled :: bool

record twilio =
  trunks :: "(sid \<times> pystr \<times> pystr) list"
  credential_lists :: "(sid \<times> pystr) list"
  credentials :: "(sid \<times> pystr \<times> pystr) list"
  trunk_credential_lists :: "(sid \<times> sid) list"
  origination_urls :: "(sid \<times> origination_url) list"
  incoming_phone_numbers :: "(sid \<times> pystr) list"
  trunk_phone_numbers :: "(sid \<times> sid \<times> pystr) list"
  next_sid :: sid

datatype twilio_request =
    TrunksCreate pystr pystr
  | CredentialListsList
  | CredentialListsCreate pystr
  | CredentialsList sid
  | CredentialsCreate sid pystr pystr
  | TrunkCredentialListsList sid
  | TrunkCredentialListsCreate sid sid
  | OriginationUrlsList sid
  | OriginationUrlsCreate sid origination_url
  | TrunkPhoneNumbersList sid
  | TrunkPhoneNumbersCreate sid sid
  | IncomingPhoneNumbersList pystr

fun is_creation :: "twilio_request \<Rightarrow> bool" where
  "is_creation (TrunksCreate n d) = True"
| "is_creation (CredentialListsCreate n) = True"
| "is_creation (CredentialsCreate l u p) = True"
| "is_creation (TrunkCredentialListsCreate t l) = True"
| "is_creation (OriginationUrlsCreate t u) = True"
| "is_creation (TrunkPhoneNumbersCreate t n) = True"
| "is_creation r = False"

text \<open>
  A run of a script: the requests it sent, in order, the account after it, and its
  result. \<open>fails\<close> says which requests the provider rejects, and with which exception; a
  rejected request changes nothing. \<open>then_do\<close> is sequencing: an exception ends the run.
\<close>

type_synonym 'a run = "twilio_request list \<times> twilio \<times> (exn + 'a)"

definition then_do :: "'a run \<Rightarrow> ('a \<Rightarrow> twilio \<Rightarrow> 'b run) \<Rightarrow> 'b run" where
  "then_do x f =
     (case x of
        (tr, tw, Inl e) \<Rightarrow> (tr, tw, Inl e)
      | (tr, tw, Inr v) \<Rightarrow> (case f v tw of (tr', tw', r) \<Rightarrow> (tr @ tr', tw', r)))"

definition pure_run :: "'a \<Rightarrow> twilio \<Rightarrow> 'a run" where
  "pure_run v tw = ([], tw, Inr v)"

definition requests_of :: "twilio_request list \<times> twilio \<times> 'a \<Rightarrow> twilio_request list" where
  "requests_of x = fst x"

definition account_after :: "twilio_request list \<times> twilio \<times> 'a \<Rightarrow> twilio" where
  "account_after x = fst (snd x)"

definition result_of :: "twilio_request list \<times> twilio \<times> 'a \<Rightarrow> 'a" where
  "result_of x = snd (snd x)"

definition request ::
  "(twilio_request \<Rightarrow> exn option) \<Rightarrow> twilio_request \<Rightarrow> (twilio \<Rightarrow> twilio \<times> 'a) \<Rightarrow> twilio \<Rightarrow> 'a run"
  where
  "request fails req answer tw =
     (case fails req of
        Some e \<Rightarrow> ([req], tw, Inl e)
      | None \<Rightarrow> (case answer tw of (tw', v) \<Rightarrow> ([req], tw', Inr v)))"

subsection \<open>The provider's operations\<close>

definition trunks_create ::
  "(twilio_request \<Rightarrow> exn option) \<Rightarrow> pystr \<Rightarrow> pystr \<Rightarrow> twilio \<Rightarrow> sid run" where
  "trunks_create fails friendly_name domain_name =
     request fails (TrunksCreate friendly_name domain_name)
       (\<lambda>tw. (tw\<lparr>trunks := trunks tw @ [(next_sid tw, friendly_name, domain_name)],
                  next_sid := next_sid tw + 1\<rparr>, next_sid tw))"

definition credential_lists_list ::
  "(twilio_request \<Rightarrow> exn option) \<Rightarrow> twilio \<Rightarrow> (sid \<times> pystr) list run" where
  "credential_lists_list fails = request fails CredentialListsList (\<lambda>tw. (tw, credential_lists tw))"

definition credential_lists_create ::
  "(twilio_request \<Rightarrow> exn option) \<Rightarrow> pystr \<Rightarrow> twilio \<Rightarrow> (sid \<times> pystr) run" where
  "credential_lists_create fails friendly_name =
     request fails (CredentialListsCreate friendly_name)
       (\<lambda>tw. (tw\<lparr>credential_lists := credential_lists tw @ [(next_sid tw, friendly_name)],
                  next_sid := next_sid tw + 1\<rparr>, (next_sid tw, friendly_name)))"

definition credentials_list ::
  "(twilio_request \<Rightarrow> exn option) \<Rightarrow> sid \<Rightarrow> twilio \<Rightarrow> (pystr \<times> pystr) list run" where
  "credentials_list fails l =
     request fails (CredentialsList l)
       (\<lambda>tw. (tw, map snd (filter (\<lambda>c. fst c = l) (credentials tw))))"

definition credentials_create ::
  "(twilio_request \<Rightarrow> exn option) \<Rightarrow> sid \<Rightarrow> pystr \<Rightarrow> pystr \<Rightarrow> twilio \<Rightarrow> (pystr \<times> pystr) run"
  where
  "credentials_create fails l username password =
     request fails (CredentialsCreate l username password)
       (\<lambda>tw. (tw\<lparr>credentials := credentials tw @ [(l, username, password)]\<rparr>,
               (username, password)))"

definition trunk_credential_lists_list ::
  "(twilio_request \<Rightarrow> exn option) \<Rightarrow> sid \<Rightarrow> twilio \<Rightarrow> sid list run" where
  "trunk_credential_lists_list fails t =
     request fails (TrunkCredentialListsList t)
       (\<lambda>tw. (tw, map snd (filter (\<lambda>a. fst a = t) (trunk_credential_lists tw))))"

definition trunk_credential_lists_create ::
  "(twilio_request \<Rightarrow> exn option) \<Rightarrow> sid \<Rightarrow> sid \<Rightarrow> twilio \<Rightarrow> unit run" where
  "trunk_credential_lists_create fails t l =
     request fails (TrunkCredentialListsCreate t l)
       (\<lambda>tw. (tw\<lparr>trunk_credential_lists := trunk_credential_lists tw @ [(t, l)]\<rparr>, ()))"

definition origination_urls_list ::
  "(twilio_request \<Rightarrow> exn option) \<Rightarrow> sid \<Rightarrow> twilio \<Rightarrow> origination_url list run" where
  "origination_urls_list fails t =
     request fails (OriginationUrlsList t)
       (\<lambda>tw. (tw, map snd (filter (\<lambda>u. fst u = t) (origination_urls tw))))"

definition origination_urls_create ::
  "(twilio_request \<Rightarrow> exn option) \<Rightarrow> sid \<Rightarrow> origination_url \<Rightarrow> twilio \<Rightarrow> origination_url run"
  where
  "origination_urls_create fails t url =
     request fails (OriginationUrlsCreate t url)
       (\<lambda>tw. (tw\<lparr>origination_urls := origination_urls tw @ [(t, url)]\<rparr>, url))"

definition trunk_phone_numbers_list ::
  "(twilio_request \<Rightarrow> exn option) \<Rightarrow> sid \<Rightarrow> twilio \<Rightarrow> (sid \<times> pystr) list run" where
  "trunk_phone_numbers_list fails t =
     request fails (TrunkPhoneNumbersList t)
       (\<lambda>tw. (tw, map snd (filter (\<lambda>n. fst n = t) (trunk_phone_numbers tw))))"

definition incoming_phone_numbers_list ::
  "(twilio_request \<Rightarrow> exn option) \<Rightarrow> pystr \<Rightarrow> twilio \<Rightarrow> (sid \<times> pystr) list run" where
  "incoming_phone_numbers_list fails phone_number =
     request fails (IncomingPhoneNumbersList phone_number)
       (\<lambda>tw. (tw, filter (\<lambda>n. snd n = phone_number) (incoming_phone_numbers tw)))"

text \<open>
  Associating a number with a trunk: the trunk's entry shows the number that the account
  holds under the identifier; an identifier the account does not hold is rejected.
\<close>

definition trunk_phone_numbers_create ::
  "(twilio_request \<Rightarrow> exn option) \<Rightarrow> sid \<Rightarrow> sid \<Rightarrow> twilio \<Rightarrow> unit run" where
  "trunk_phone_numbers_create fails t p tw =
     (case map_of (incoming_phone_numbers tw) p of
        None \<Rightarrow> ([TrunkPhoneNumbersCreate t p], tw, Inl (RemoteError (str ''not found'')))
      | Some number \<Rightarrow>
          request fails (TrunkPhoneNumbersCreate t p)
            (\<lambda>tw. (tw\<lparr>trunk_phone_numbers := trunk_phone_numbers tw @ [(t, p, number)]\<rparr>, ()))
            tw)"

text \<open>
  The scripts reach the resources of a trunk through attributes of the client library's
  trunk context, \<^verbatim>\<open>client.trunking.v1.trunks(sid)\<close>. The context has the attributes below
  (the credential lists of a trunk are \<^verbatim>\<open>credentials_lists\<close>); reading any other name
  raises \<^verbatim>\<open>AttributeError\<close>, and no request is sent.
\<close>

definition trunk_context_attributes :: "string list" where
  "trunk_context_attributes =
     [''credentials_lists'', ''ip_access_control_lists'', ''origination_urls'',
      ''phone_numbers'', ''recordings'', ''fetch'', ''update'', ''delete'']"

definition trunk_attribute :: "string \<Rightarrow> (twilio \<Rightarrow> 'a run) \<Rightarrow> twilio \<Rightarrow> 'a run" where
  "trunk_attribute name operation tw =
     (if name \<in> set trunk_context_attributes then operation tw
      else ([], tw, Inl AttributeError))"

subsection \<open>Configuration: \<^verbatim>\<open>config/twilio_config.py\<close>\<close>

text \<open>
  The values read from the environment. The three that \<^verbatim>\<open>validate_twilio_config\<close> tests
  may be absent; the trunk identifier, the user name and the password, which the update
  script passes on untested, are taken to be set.
\<close>

record twilio_config =
  TWILIO_ACCOUNT_SID :: "pystr option"
  TWILIO_AUTH_TOKEN :: "pystr option"
  TWILIO_PHONE_NUMBER :: "pystr option"
  TWILIO_SIP_TRUNK_SID :: sid
  TWILIO_SIP_USERNAME :: pystr
  TWILIO_SIP_PASSWORD :: pystr

definition validate_twilio_config :: "twilio_config \<Rightarrow> exn + bool" where
  "validate_twilio_config cfg =
     (if is_falsy (TWILIO_ACCOUNT_SID cfg)
      then Inl (ValueError (str ''TWILIO_ACCOUNT_SID is not set in environment variables''))
      else if is_falsy (TWILIO_AUTH_TOKEN cfg)
      then Inl (ValueError (str ''TWILIO_AUTH_TOKEN is not set in environment variables''))
      else if is_falsy (TWILIO_PHONE_NUMBER cfg)
      then Inl (ValueError (str ''TWILIO_PHONE_NUMBER is not set in environment variables''))
      else Inr True)"

definition livekit_origination_url :: "pystr \<Rightarrow> origination_url" where
  "livekit_origination_url sip_url =
     \<lparr>ou_friendly_name = str ''LiveKit SIP URI'', ou_sip_url = sip_url, ou_priority = 1,
      ou_weight = 1, ou_enabled = True\<rparr>"

subsection \<open>\<^verbatim>\<open>create_twilio_trunk\<close> of \<^verbatim>\<open>scripts/setup_twilio_trunk.py\<close>\<close>

text \<open>
  The function validates the configuration and creates, in this order and without looking
  anything up: the trunk, a credential list, a credential in it, the association of the
  list with the trunk, an origination URL and, once the number's identifier is found, the
  association of the number. For the fourth step it reads the attribute
  \<^verbatim>\<open>credential_lists\<close> of the trunk context. Every exception is logged and raised again.
\<close>

record trunk_info =
  ti_trunk_sid :: sid
  ti_domain_name :: pystr
  ti_credential_list_sid :: sid
  ti_username :: pystr

text \<open>Step 6 of the function: the account's number is looked up and associated.\<close>

definition create_associate_phone_number ::
  "(twilio_request \<Rightarrow> exn option) \<Rightarrow> twilio_config \<Rightarrow> sid \<Rightarrow> twilio \<Rightarrow> unit run" where
  "create_associate_phone_number fails cfg trunk_sid tw =
     (if is_falsy (TWILIO_PHONE_NUMBER cfg) then pure_run () tw
      else
        then_do (incoming_phone_numbers_list fails (the (TWILIO_PHONE_NUMBER cfg)) tw)
          (\<lambda>phone_numbers tw.
             if phone_numbers \<noteq> []
             then trunk_attribute ''phone_numbers''
                    (trunk_phone_numbers_create fails trunk_sid (fst (hd phone_numbers))) tw
             else pure_run () tw))"

definition create_twilio_trunk ::
  "(twilio_request \<Rightarrow> exn option) \<Rightarrow> twilio_config \<Rightarrow> pystr \<Rightarrow> pystr \<Rightarrow> pystr \<Rightarrow> pystr \<Rightarrow>
     pystr \<Rightarrow> twilio \<Rightarrow> trunk_info run" where
  "create_twilio_trunk fails cfg trunk_name domain_name livekit_sip_uri username password tw =
     (case validate_twilio_config cfg of
        Inl e \<Rightarrow> ([], tw, Inl e)
      | Inr ok \<Rightarrow>
          then_do (trunks_create fails trunk_name domain_name tw) (\<lambda>trunk_sid tw.
          then_do (credential_lists_create fails (trunk_name @ str ''-credentials'') tw)
            (\<lambda>credential_list tw.
          then_do (credentials_create fails (fst credential_list) username password tw)
            (\<lambda>credential tw.
          then_do (trunk_attribute ''credential_lists''
                     (trunk_credential_lists_create fails trunk_sid (fst credential_list)) tw)
            (\<lambda>u tw.
          then_do (trunk_attribute ''origination_urls''
                     (origination_urls_create fails trunk_sid
                        (livekit_origination_url livekit_sip_uri)) tw)
            (\<lambda>origination_url tw.
          then_do (create_associate_phone_number fails cfg trunk_sid tw)
            (\<lambda>u tw.
          pure_run \<lparr>ti_trunk_sid = trunk_sid, ti_domain_name = domain_name,
                ti_credential_list_sid = fst credential_list, ti_username = username\<rparr> tw)))))))"

subsection \<open>The module body of \<^verbatim>\<open>scripts/update_twilio_trunk_auto.py\<close>\<close>

text \<open>
  \<open>lower\<close> is \<^verbatim>\<open>str.lower\<close>, a parameter: the script applies it to names the account
  holds, which may be in any script.
\<close>

definition LIVEKIT_SIP_URI :: pystr where
  "LIVEKIT_SIP_URI = str ''sip:sip.livekit.cloud''"

definition find_or_create_credential_list ::
  "(pystr \<Rightarrow> pystr) \<Rightarrow> (twilio_request \<Rightarrow> exn option) \<Rightarrow> twilio \<Rightarrow> (sid \<times> pystr) run" where
  "find_or_create_credential_list lower fails tw =
     then_do (credential_lists_list fails tw) (\<lambda>existing_cred_lists tw.
       case find (\<lambda>cl. py_in (str ''livekit'') (lower (snd cl))) existing_cred_lists of
         Some cl \<Rightarrow> pure_run cl tw
       | None \<Rightarrow> credential_lists_create fails (str ''LiveKit SIP Credentials'') tw)"

definition add_credentials ::
  "(twilio_request \<Rightarrow> exn option) \<Rightarrow> twilio_config \<Rightarrow> sid \<Rightarrow> twilio \<Rightarrow> unit run" where
  "add_credentials fails cfg l tw =
     then_do (credentials_list fails l tw) (\<lambda>existing_creds tw.
       if \<not> list_ex (\<lambda>c. fst c = TWILIO_SIP_USERNAME cfg) existing_creds
       then then_do (credentials_create fails l (TWILIO_SIP_USERNAME cfg)
                       (TWILIO_SIP_PASSWORD cfg) tw) (\<lambda>credential. pure_run ())
       else pure_run () tw)"

text \<open>This step is inside its own \<^verbatim>\<open>try\<close>: an exception is logged and the script goes on.\<close>

definition associate_credential_list ::
  "(twilio_request \<Rightarrow> exn option) \<Rightarrow> sid \<Rightarrow> sid \<Rightarrow> twilio \<Rightarrow> unit run" where
  "associate_credential_list fails trunk_sid l tw =
     (case then_do (trunk_attribute ''credentials_lists''
                      (trunk_credential_lists_list fails trunk_sid) tw)
             (\<lambda>trunk_cred_lists tw.
                if \<not> list_ex (\<lambda>s. s = l) trunk_cred_lists
                then trunk_attribute ''credentials_lists''
                       (trunk_credential_lists_create fails trunk_sid l) tw
                else pure_run () tw) of
        (tr, tw', r) \<Rightarrow> (tr, tw', Inr ()))"

definition add_origination_url ::
  "(twilio_request \<Rightarrow> exn option) \<Rightarrow> sid \<Rightarrow> twilio \<Rightarrow> unit run" where
  "add_origination_url fails trunk_sid tw =
     then_do (trunk_attribute ''origination_urls'' (origination_urls_list fails trunk_sid) tw)
       (\<lambda>existing_urls tw.
          if \<not> list_ex (\<lambda>url. py_in LIVEKIT_SIP_URI (ou_sip_url url)) existing_urls
          then then_do (trunk_attribute ''origination_urls''
                          (origination_urls_create fails trunk_sid
                             (livekit_origination_url LIVEKIT_SIP_URI)) tw)
                 (\<lambda>origination_url. pure_run ())
          else pure_run () tw)"

definition associate_phone_number ::
  "(twilio_request \<Rightarrow> exn option) \<Rightarrow> twilio_config \<Rightarrow> twilio \<Rightarrow> unit run" where
  "associate_phone_number fails cfg tw =
     (if is_falsy (TWILIO_PHONE_NUMBER cfg) then pure_run () tw
      else
        then_do (trunk_attribute ''phone_numbers''
                   (trunk_phone_numbers_list fails (TWILIO_SIP_TRUNK_SID cfg)) tw)
          (\<lambda>trunk_numbers tw.
             if \<not> list_ex (\<lambda>tn. snd tn = the (TWILIO_PHONE_NUMBER cfg)) trunk_numbers
             then create_associate_phone_number fails cfg (TWILIO_SIP_TRUNK_SID cfg) tw
             else pure_run () tw))"

text \<open>
  The statements of the outer \<^verbatim>\<open>try\<close>, and the whole script: any exception that reaches
  the outer \<^verbatim>\<open>except\<close> ends it with exit code 1.
\<close>

definition update_twilio_trunk_body ::
  "(pystr \<Rightarrow> pystr) \<Rightarrow> (twilio_request \<Rightarrow> exn option) \<Rightarrow> twilio_config \<Rightarrow> twilio \<Rightarrow> unit run"
  where
  "update_twilio_trunk_body lower fails cfg tw =
     then_do (find_or_create_credential_list lower fails tw) (\<lambda>livekit_cred_list tw.
     then_do (add_credentials fails cfg (fst livekit_cred_list) tw) (\<lambda>u tw.
     then_do (associate_credential_list fails (TWILIO_SIP_TRUNK_SID cfg)
                (fst livekit_cred_list) tw) (\<lambda>u tw.
     then_do (add_origination_url fails (TWILIO_SIP_TRUNK_SID cfg) tw) (\<lambda>u tw.
     associate_phone_number fails cfg tw))))"

datatype exit = Completed | Exit nat

definition update_twilio_trunk_auto ::
  "(pystr \<Rightarrow> pystr) \<Rightarrow> (twilio_request \<Rightarrow> exn option) \<Rightarrow> twilio_config \<Rightarrow> twilio \<Rightarrow>
     twilio_request list \<times> twilio \<times> exit" where
  "update_twilio_trunk_auto lower fails cfg tw =
     (case update_twilio_trunk_body lower fails cfg tw of
        (tr, tw', Inl e) \<Rightarrow> (tr, tw', Exit 1)
      | (tr, tw', Inr u) \<Rightarrow> (tr, tw', Completed))"

subsection \<open>Resources that exist already\<close>

text \<open>
  The resource a creation request asks for is present in an account when the account
  holds one like it: a trunk of that name and domain, a credential list of that name, a
  credential of that user name in that list, that association of a list with a trunk, an
  origination URL of that SIP URL on that trunk, the phone number the identifier stands
  for on that trunk. A creation request for a present resource makes a duplicate.
\<close>

fun present :: "twilio \<Rightarrow> twilio_request \<Rightarrow> bool" where
  "present tw (TrunksCreate friendly_name domain_name) =
     list_ex (\<lambda>t. snd t = (friendly_name, domain_name)) (trunks tw)"
| "present tw (CredentialListsCreate friendly_name) =
     list_ex (\<lambda>cl. snd cl = friendly_name) (credential_lists tw)"
| "present tw (CredentialsCreate l username password) =
     list_ex (\<lambda>c. fst c = l \<and> fst (snd c) = username) (credentials tw)"
| "present tw (TrunkCredentialListsCreate t l) =
     list_ex (\<lambda>a. a = (t, l)) (trunk_credential_lists tw)"
| "present tw (OriginationUrlsCreate t url) =
     list_ex (\<lambda>u. fst u = t \<and> ou_sip_url (snd u) = ou_sip_url url) (origination_urls tw)"
| "present tw (TrunkPhoneNumbersCreate t p) =
     list_ex (\<lambda>n. fst n = t \<and> map_of (incoming_phone_numbers tw) p = Some (snd (snd n)))
       (trunk_phone_numbers tw)"
| "present tw r = False"

text \<open>
  An account grows into another when it keeps what it holds and owns the same numbers. A
  run is careful on an account when the account grows into the one it leaves, it sends
  no creation request for a resource present before it, and every creation request the
  provider accepts leaves the resource present.
\<close>

definition grows :: "twilio \<Rightarrow> twilio \<Rightarrow> bool" where
  "grows tw tw' =
     (set (trunks tw) \<subseteq> set (trunks tw') \<and>
      set (credential_lists tw) \<subseteq> set (credential_lists tw') \<and>
      set (credentials tw) \<subseteq> set (credentials tw') \<and>
      set (trunk_credential_lists tw) \<subseteq> set (trunk_credential_lists tw') \<and>
      set (origination_urls tw) \<subseteq> set (origination_urls tw') \<and>
      set (trunk_phone_numbers tw) \<subseteq> set (trunk_phone_numbers tw') \<and>
      incoming_phone_numbers tw' = incoming_phone_numbers tw)"

definition careful ::
  "(twilio_request \<Rightarrow> exn option) \<Rightarrow> twilio \<Rightarrow> twilio_request list \<times> twilio \<times> 'a \<Rightarrow> bool"
  where
  "careful fails tw x =
     (grows tw (account_after x) \<and>
      (\<forall>r \<in> set (requests_of x).
         is_creation r \<longrightarrow>
           \<not> present tw r \<and> (fails r = None \<longrightarrow> present (account_after x) r)))"

subsection \<open>What a run of the update script leaves behind\<close>

text \<open>
  A run is idle on an account when it leaves the account as it was and sends no creation
  request.
\<close>

definition idle :: "twilio \<Rightarrow> twilio_request list \<times> twilio \<times> 'a \<Rightarrow> bool" where
  "idle tw x = (account_after x = tw \<and> list_all (\<lambda>r. \<not> is_creation r) (requests_of x))"

text \<open>
  The condition each step of the update script tests before it creates: a credential list
  whose lowered name contains \<^verbatim>\<open>livekit\<close>, the first of them being \<open>cl\<close>; the user name
  among the credentials of the list; the list among those of the trunk; an origination
  URL of the trunk containing the SIP URI; and, for the phone number, that it is unset,
  or among the numbers of the trunk, or not a number of the account.
\<close>

definition has_credential_list :: "(pystr \<Rightarrow> pystr) \<Rightarrow> (sid \<times> pystr) list \<Rightarrow> sid \<times> pystr \<Rightarrow> bool"
  where
  "has_credential_list lower cls cl =
     (find (\<lambda>cl. py_in (str ''livekit'') (lower (snd cl))) cls = Some cl)"

definition has_credentials :: "twilio_config \<Rightarrow> sid \<Rightarrow> (sid \<times> pystr \<times> pystr) list \<Rightarrow> bool" where
  "has_credentials cfg l cs =
     list_ex (\<lambda>c. fst c = TWILIO_SIP_USERNAME cfg) (map snd (filter (\<lambda>c. fst c = l) cs))"

definition is_associated :: "sid \<Rightarrow> sid \<Rightarrow> (sid \<times> sid) list \<Rightarrow> bool" where
  "is_associated t l as = list_ex (\<lambda>s. s = l) (map snd (filter (\<lambda>a. fst a = t) as))"

definition has_origination_url :: "sid \<Rightarrow> (sid \<times> origination_url) list \<Rightarrow> bool" where
  "has_origination_url t us =
     list_ex (\<lambda>url. py_in LIVEKIT_SIP_URI (ou_sip_url url)) (map snd (filter (\<lambda>u. fst u = t) us))"

definition phone_number_settled ::
  "twilio_config \<Rightarrow> (sid \<times> pystr) list \<Rightarrow> (sid \<times> sid \<times> pystr) list \<Rightarrow> bool" where
  "phone_number_settled cfg incoming ns =
     (is_falsy (TWILIO_PHONE_NUMBER cfg)
      \<or> list_ex (\<lambda>tn. snd tn = the (TWILIO_PHONE_NUMBER cfg))
           (map snd (filter (\<lambda>n. fst n = TWILIO_SIP_TRUNK_SID cfg) ns))
      \<or> filter (\<lambda>n. snd n = the (TWILIO_PHONE_NUMBER cfg)) incoming = [])"

text \<open>All five at once.\<close>

definition provisioned :: "(pystr \<Rightarrow> pystr) \<Rightarrow> twilio_config \<Rightarrow> twilio \<Rightarrow> bool" where
  "provisioned lower cfg tw =
     (\<exists>cl. has_credential_list lower (credential_lists tw) cl
         \<and> has_credentials cfg (fst cl) (credentials tw)
         \<and> is_associated (TWILIO_SIP_TRUNK_SID cfg) (fst cl) (trunk_credential_lists tw)
         \<and> has_origination_url (TWILIO_SIP_TRUNK_SID cfg) (origination_urls tw)
         \<and> phone_number_settled cfg (incoming_phone_numbers tw) (trunk_phone_numbers tw))"

section \<open>Fixtures\<close>

text \<open>
  A hexadecimal character as \<^verbatim>\<open>.hex\<close> writes it, the limits of CPython 3.11 where
  \<^verbatim>\<open>json.loads\<close> is called from the top of a script, limits small enough to meet in a
  short text, and a platform that accepts every request.
\<close>

definition is_hexchar :: "pychar \<Rightarrow> bool" where
  "is_hexchar c = (48 \<le> c \<and> c \<le> 57 \<or> 97 \<le> c \<and> c \<le> 102)"

definition cpython_limits :: limits where
  "cpython_limits = \<lparr>recursion_depth = 994, int_max_str_digits = 4300\<rparr>"

definition small_limits :: limits where
  "small_limits = \<lparr>recursion_depth = 2, int_max_str_digits = 3\<rparr>"

definition accepting_api :: livekit_api where
  "accepting_api =
     \<lparr>create_dispatch = (\<lambda>r. Inr (str ''AD_1'')),
      create_sip_participant = (\<lambda>r. Inr (sip_participant_identity r))\<rparr>"

text \<open>
  \<^verbatim>\<open>str.lower\<close> on ASCII text, a configuration, an account with one trunk and one number,
  a provider that accepts every request and one that rejects the creation of an
  origination URL, a run of the update script
  with that provider and a second run after it with a provider that accepts every
  request, and the account after one call of \<^verbatim>\<open>create_twilio_trunk\<close>.
\<close>

definition ascii_lower :: "pystr \<Rightarrow> pystr" where
  "ascii_lower s = map (\<lambda>c. if 65 \<le> c \<and> c \<le> 90 then c + 32 else c) s"

definition example_config :: twilio_config where
  "example_config =
     \<lparr>TWILIO_ACCOUNT_SID = Some (str ''AC1''), TWILIO_AUTH_TOKEN = Some (str ''token''),
      TWILIO_PHONE_NUMBER = Some (str ''+14155551234''), TWILIO_SIP_TRUNK_SID = 1,
      TWILIO_SIP_USERNAME = str ''agent'', TWILIO_SIP_PASSWORD = str ''secret''\<rparr>"

definition example_account :: twilio where
  "example_account =
     \<lparr>trunks = [(1, str ''trunk'', str ''trunk.pstn.twilio.com'')], credential_lists = [],
      credentials = [], trunk_credential_lists = [], origination_urls = [],
      incoming_phone_numbers = [(2, str ''+14155551234'')], trunk_phone_numbers = [],
      next_sid = 3\<rparr>"

definition accepting_provider :: "twilio_request \<Rightarrow> exn option" where
  "accepting_provider r = None"

definition rejecting_origination_urls :: "twilio_request \<Rightarrow> exn option" where
  "rejecting_origination_urls r =
     (case r of
        OriginationUrlsCreate t url \<Rightarrow> Some (RemoteError (str ''HTTP 400 error''))
      | _ \<Rightarrow> None)"

definition rejected_run :: "twilio_request list \<times> twilio \<times> exit" where
  "rejected_run =
     update_twilio_trunk_auto ascii_lower rejecting_origination_urls example_config
       example_account"

definition rerun :: "twilio_request list \<times> twilio \<times> exit" where
  "rerun =
     update_twilio_trunk_auto ascii_lower accepting_provider example_config
       (account_after rejected_run)"

definition created_once :: twilio where
  "created_once =
     account_after
       (create_twilio_trunk accepting_provider example_config (str ''livekit-trunk'')
          (str ''livekit.pstn.twilio.com'') (str ''sip:sip.livekit.cloud'') (str ''agent'')
          (str ''secret'') example_account)"

section \<open>Properties of the validators\<close>

lemma cp_simps:
  "cp CHR ''+'' = 43" "cp CHR ''1'' = 49" "cp CHR ''9'' = 57"
  by (simp_all add: cp_def)

lemma str_plus: "str ''+'' = [43]"
  by (simp add: str_def cp_def)

lemma uni_decimal_ascii: "c < 128 \<Longrightarrow> uni_decimal c = (48 \<le> c \<and> c \<le> 57)"
  by (auto simp add: uni_decimal_def nd_ranges_def)

lemma uni_decimal_bound:
  "uni_decimal c \<Longrightarrow> 48 \<le> c \<and> c < 0x110000 \<and> (c < 0xD800 \<or> 0xDFFF < c)"
  by (auto simp add: uni_decimal_def nd_ranges_def)

lemma format_alt:
  "format_phone_number s =
     (if startswith (filter kept s) [43] then filter kept s else 43 # filter kept s)"
  by (simp add: format_phone_number_def re_sub_delete_def str_plus cp_simps kept_def [abs_def]
      Let_def)

lemma format_kept: "list_all kept (format_phone_number s)"
  by (simp add: format_alt list_all_iff kept_def)

lemma format_startswith: "startswith (format_phone_number s) [43]"
  by (simp add: format_alt startswith_def)

lemma format_fixed:
  "list_all kept t \<Longrightarrow> startswith t [43] \<Longrightarrow> format_phone_number t = t"
proof -
  assume "list_all kept t" and st: "startswith t [43]"
  then have "filter kept t = t" by (simp add: list_all_iff)
  with st show ?thesis by (simp add: format_alt)
qed

lemma format_idem: "format_phone_number (format_phone_number s) = format_phone_number s"
  by (rule format_fixed [OF format_kept format_startswith])

lemma format_nothing_kept:
  "list_all (\<lambda>c. \<not> uni_decimal c \<and> c \<noteq> 43) s \<Longrightarrow> format_phone_number s = [43]"
proof -
  assume "list_all (\<lambda>c. \<not> uni_decimal c \<and> c \<noteq> 43) s"
  then have "filter kept s = []"
    by (auto simp add: list_all_iff kept_def filter_empty_conv)
  then show ?thesis by (simp add: format_alt startswith_def)
qed

lemma validate_plus: "\<not> validate_phone_number [43]"
  by (simp add: validate_phone_number_def re_match_def e164_pattern_def cp_simps)

subsection \<open>What the validator accepts\<close>

lemma dte_Nil: "digits_then_end lo hi [] = (lo = 0)"
  by (auto simp add: digits_then_end_def)

lemma dte_Cons:
  "digits_then_end lo hi (c # s) =
     ((lo = 0 \<and> c = 10 \<and> s = []) \<or>
      (0 < hi \<and> uni_decimal c \<and> digits_then_end (lo - 1) (hi - 1) s))"
proof
  assume "digits_then_end lo hi (c # s)"
  then obtain ds t where e: "c # s = ds @ t" and b: "lo \<le> length ds" "length ds \<le> hi"
    and d: "list_all uni_decimal ds" and t: "t = [] \<or> t = [10]"
    by (auto simp add: digits_then_end_def)
  show "(lo = 0 \<and> c = 10 \<and> s = []) \<or>
      (0 < hi \<and> uni_decimal c \<and> digits_then_end (lo - 1) (hi - 1) s)"
  proof (cases ds)
    case Nil
    with e t b show ?thesis by auto
  next
    case (Cons x xs)
    with e have xc: "x = c" and sx: "s = xs @ t" by auto
    from Cons b d xc have "0 < hi" "uni_decimal c" "lo - 1 \<le> length xs"
      "length xs \<le> hi - 1" "list_all uni_decimal xs" by auto
    with sx t have "0 < hi \<and> uni_decimal c \<and> digits_then_end (lo - 1) (hi - 1) s"
      unfolding digits_then_end_def by blast
    then show ?thesis by simp
  qed
next
  assume "(lo = 0 \<and> c = 10 \<and> s = []) \<or>
      (0 < hi \<and> uni_decimal c \<and> digits_then_end (lo - 1) (hi - 1) s)"
  then show "digits_then_end lo hi (c # s)"
  proof
    assume "lo = 0 \<and> c = 10 \<and> s = []"
    then have "c # s = [] @ [10]" "lo \<le> length ([]::pystr)" by auto
    then show ?thesis unfolding digits_then_end_def by fastforce
  next
    assume a: "0 < hi \<and> uni_decimal c \<and> digits_then_end (lo - 1) (hi - 1) s"
    then obtain ds t where "s = ds @ t" "lo - 1 \<le> length ds" "length ds \<le> hi - 1"
      "list_all uni_decimal ds" "t = [] \<or> t = [10]"
      by (auto simp add: digits_then_end_def)
    with a have "c # s = (c # ds) @ t \<and> lo \<le> length (c # ds) \<and> length (c # ds) \<le> hi \<and>
       list_all uni_decimal (c # ds) \<and> (t = [] \<or> t = [10])" by auto
    then show ?thesis unfolding digits_then_end_def by blast
  qed
qed

lemma match_rep_digits:
  "match_here [Rep (One Digit) lo hi, Eol] b s = digits_then_end lo hi s"
proof (induction s arbitrary: lo hi b)
  case Nil
  show ?case by (simp add: dte_Nil)
next
  case (Cons c s)
  show ?case by (simp add: dte_Cons Cons.IH)
qed

text \<open>
  The validator accepts exactly the sign, a first character \<^verbatim>\<open>1\<close>..\<^verbatim>\<open>9\<close>, then 1 to 14
  decimal digits of any script, then the end of the string or one final newline.
\<close>

lemma validate_phone_number_iff:
  "validate_phone_number s =
     (\<exists>d r. s = 43 # d # r \<and> 49 \<le> d \<and> d \<le> 57 \<and> digits_then_end 1 14 r)"
proof (cases s)
  case Nil
  then show ?thesis by (simp add: validate_phone_number_def re_match_def e164_pattern_def)
next
  case (Cons a s')
  show ?thesis
  proof (cases s')
    case Nil
    with Cons show ?thesis
      by (simp add: validate_phone_number_def re_match_def e164_pattern_def)
  next
    case (Cons d r)
    with \<open>s = a # s'\<close> show ?thesis
      by (auto simp add: validate_phone_number_def re_match_def e164_pattern_def cp_simps
          match_rep_digits)
  qed
qed

lemmas validate_eval =
  validate_phone_number_def re_match_def e164_pattern_def str_def cp_def uni_decimal_def
  nd_ranges_def

lemmas format_eval =
  format_phone_number_def re_sub_delete_def startswith_def str_def cp_def uni_decimal_def
  nd_ranges_def

text \<open>The four examples of the specification.\<close>

lemma validate_examples:
  "validate_phone_number (str ''+14155551234'')"
  "\<not> validate_phone_number (str ''4155551234'')"
  "\<not> validate_phone_number (str ''+0123'')"
  "\<not> validate_phone_number (str ''+123456789012345678'')"
  by (simp_all add: validate_eval)

text \<open>
  Claim C3. The validator is to return true exactly when its input is the sign, a first
  digit 1-9 and 1 to 14 further digits. The pattern ends in \<^verbatim>\<open>$\<close>, which also matches
  before a final newline: the string \<^verbatim>\<open>"+14155551234\n"\<close>, which is not of that form, is
  accepted.
\<close>

theorem validate_accepts_trailing_newline:
  "validate_phone_number (str ''+14155551234\<newline>'')"
  by (simp add: validate_eval)

text \<open>
  Claim C4. The formatter is to strip every character that is not a digit or a leading
  sign, so that only digits follow the sign. The pattern \<^verbatim>\<open>[^\d+]\<close> keeps every sign,
  wherever it stands: \<^verbatim>\<open>"1+2"\<close> becomes \<^verbatim>\<open>"+1+2"\<close>.
\<close>

theorem format_keeps_inner_sign:
  "format_phone_number (str ''1+2'') = str ''+1+2''"
  by (simp add: format_eval)

text \<open>
  Claim C5. For every string that contains a digit, formatting twice gives what formatting
  once gives. (The digit is not needed: \<open>format_idem\<close> holds for every string.)
\<close>

theorem format_idempotent:
  "list_ex uni_decimal s \<Longrightarrow>
     format_phone_number (format_phone_number s) = format_phone_number s"
  by (rule format_idem)

theorem format_idempotent_witness:
  "list_ex uni_decimal (str ''(415) 555-1234'') \<and>
   format_phone_number (str ''(415) 555-1234'') = str ''+4155551234'' \<and>
   format_phone_number (format_phone_number (str ''(415) 555-1234'')) = str ''+4155551234''"
proof -
  have h: "list_ex uni_decimal (str ''(415) 555-1234'')"
    by (simp add: str_def cp_def uni_decimal_def nd_ranges_def)
  have f: "format_phone_number (str ''(415) 555-1234'') = str ''+4155551234''"
    by (simp add: format_eval)
  from format_idempotent [OF h] h f show ?thesis by simp
qed

text \<open>
  Claim C10. The formatter returns a string for every input (it is a total function, no
  branch of it raises), and the string starts with the sign. When the input has no digit
  and no sign, the result is the sign alone, which the validator rejects.
\<close>

theorem format_starts_with_sign:
  "startswith (format_phone_number s) (str ''+'') \<and>
   (list_all (\<lambda>c. \<not> uni_decimal c \<and> c \<noteq> cp CHR ''+'') s \<longrightarrow>
      format_phone_number s = str ''+'' \<and> \<not> validate_phone_number (format_phone_number s))"
  by (simp add: str_plus cp_simps format_startswith format_nothing_kept validate_plus)

theorem format_starts_with_sign_witness:
  "list_all (\<lambda>c. \<not> uni_decimal c \<and> c \<noteq> cp CHR ''+'') (str ''call me'') \<and>
   format_phone_number (str ''call me'') = str ''+'' \<and>
   \<not> validate_phone_number (format_phone_number (str ''call me'')) \<and>
   format_phone_number [] = str ''+''"
proof -
  have h: "list_all (\<lambda>c. \<not> uni_decimal c \<and> c \<noteq> cp CHR ''+'') (str ''call me'')"
    by (simp add: str_def cp_def uni_decimal_def nd_ranges_def)
  have e: "list_all (\<lambda>c. \<not> uni_decimal c \<and> c \<noteq> cp CHR ''+'') []" by simp
  from format_starts_with_sign [of "str ''call me''"] format_starts_with_sign [of "[]"] h e
  show ?thesis by (simp add: str_plus validate_plus)
qed

section \<open>Properties of the JSON reader and writer\<close>

lemma hexval_hexdigit: "d < 16 \<Longrightarrow> hexval (hexdigit d) = Some d"
  by (simp add: hexval_def hexdigit_def)

lemma length_hex4: "length (hex4 n) = 4"
  by (simp add: hex4_def)

lemma div16_div16: "(n::nat) div 16 div 16 = n div 256"
  by (simp add: div_mult2_eq [symmetric])

lemma div256_div16: "(n::nat) div 256 div 16 = n div 4096"
  by (simp add: div_mult2_eq [symmetric])

lemma hex_sum:
  assumes "(n::nat) < 65536"
  shows "((n div 4096 mod 16 * 16 + n div 256 mod 16) * 16 + n div 16 mod 16) * 16 + n mod 16
           = n"
proof -
  from assms have "n div 4096 < 16" by (simp add: less_mult_imp_div_less)
  then have a: "n div 4096 mod 16 = n div 4096" by simp
  have b: "n div 4096 * 16 + n div 256 mod 16 = n div 256"
    using div_mult_mod_eq [of "n div 256" 16] by (simp only: div256_div16)
  have c: "n div 256 * 16 + n div 16 mod 16 = n div 16"
    using div_mult_mod_eq [of "n div 16" 16] by (simp only: div16_div16)
  have d: "n div 16 * 16 + n mod 16 = n"
    by (rule div_mult_mod_eq)
  show ?thesis by (simp only: a b c d)
qed

lemma unhex4_hex4: "n < 65536 \<Longrightarrow> unhex4 (hex4 n) = Some n"
proof -
  assume n: "n < 65536"
  have "unhex4 (hex4 n) =
      Some (((n div 4096 mod 16 * 16 + n div 256 mod 16) * 16 + n div 16 mod 16) * 16
              + n mod 16)"
    by (simp add: hex4_def hexval_hexdigit)
  also have "\<dots> = Some n" by (simp only: hex_sum [OF n])
  finally show ?thesis .
qed

lemma decode_u_bmp:
  assumes "c < 65536" "c < 0xD800 \<or> 0xDBFF < c" "rest \<noteq> []"
  shows "decode_u (hex4 c @ rest) = Some (c, rest)"
proof -
  have l: "\<not> length (hex4 c @ rest) < 5"
    using assms(3) by (cases rest) (simp_all add: length_hex4)
  have t: "take 4 (hex4 c @ rest) = hex4 c" "drop 4 (hex4 c @ rest) = rest"
    by (simp_all add: length_hex4)
  from assms(2) show ?thesis
  proof
    assume "c < 0xD800"
    then have "\<not> 0xD800 \<le> c" by simp
    then show ?thesis
      unfolding decode_u_def t unhex4_hex4 [OF assms(1)] using l by simp
  next
    assume "0xDBFF < c"
    then have "\<not> c \<le> 0xDBFF" by simp
    then show ?thesis
      unfolding decode_u_def t unhex4_hex4 [OF assms(1)] using l by simp
  qed
qed

lemma decode_u_pair:
  assumes a: "a < 1024" and b: "b < 1024" and r: "rest \<noteq> []"
  shows "decode_u (hex4 (0xD800 + a) @ [92, 117] @ hex4 (0xDC00 + b) @ rest) =
           Some (0x10000 + a * 1024 + b, rest)"
proof -
  let ?h = "0xD800 + a" and ?l = "0xDC00 + b"
  let ?s = "hex4 ?h @ [92, 117] @ hex4 ?l @ rest"
  from a have h: "?h < 65536" "0xD800 \<le> ?h \<and> ?h \<le> 0xDBFF" by simp_all
  from b have l: "?l < 65536" "0xDC00 \<le> ?l \<and> ?l \<le> 0xDFFF" by simp_all
  have len: "10 < length ?s" "\<not> length ?s < 5"
    using r by (cases rest; simp add: length_hex4)+
  have t: "take 4 ?s = hex4 ?h" "take 2 (drop 4 ?s) = [92, 117]"
    "take 4 (drop 6 ?s) = hex4 ?l" "drop 10 ?s = rest"
    by (simp_all add: length_hex4)
  have e: "0x10000 + (?h - 0xD800) * 1024 + (?l - 0xDC00) = 0x10000 + a * 1024 + b"
    by simp
  show ?thesis
    unfolding decode_u_def t unhex4_hex4 [OF h(1)] unhex4_hex4 [OF l(1)]
    using len h(2) l(2) e by (simp del: append.simps list.size add_diff_cancel_left')
qed

lemma split_astral:
  fixes c :: nat
  assumes "0x10000 \<le> c" "c < 0x110000"
  shows "(c - 0x10000) div 1024 mod 1024 < 1024" "(c - 0x10000) mod 1024 < 1024"
    "0x10000 + (c - 0x10000) div 1024 mod 1024 * 1024 + (c - 0x10000) mod 1024 = c"
proof -
  define v where "v = c - 0x10000"
  from assms have v: "v < 1024 * 1024" and c: "c = 0x10000 + v" by (simp_all add: v_def)
  from v have "v div 1024 < 1024" by (simp add: less_mult_imp_div_less)
  then have m: "v div 1024 mod 1024 = v div 1024" by simp
  have "v div 1024 * 1024 + v mod 1024 = v" by (rule div_mult_mod_eq)
  with m c show "0x10000 + (c - 0x10000) div 1024 mod 1024 * 1024 + (c - 0x10000) mod 1024 = c"
    unfolding v_def [symmetric] by simp
  show "(c - 0x10000) div 1024 mod 1024 < 1024" "(c - 0x10000) mod 1024 < 1024" by simp_all
qed

text \<open>The reader undoes the escape of one character.\<close>

lemma scanstring_escape_char:
  assumes s: "safe c" and r: "rest \<noteq> []"
  shows "scanstring acc (escape_ascii_char c @ rest) = scanstring (c # acc) rest"
proof (cases "c = 34 \<or> c = 92")
  case True
  then show ?thesis by (auto simp add: escape_ascii_char_def unescape_def)
next
  case nq: False
  show ?thesis
  proof (cases "32 \<le> c \<and> c \<le> 126")
    case True
    with nq show ?thesis by (simp add: escape_ascii_char_def)
  next
    case np: False
    show ?thesis
    proof (cases "c = 10 \<or> c = 13 \<or> c = 9 \<or> c = 12 \<or> c = 8")
      case True
      then show ?thesis by (auto simp add: escape_ascii_char_def unescape_def)
    next
      case ns: False
      show ?thesis
      proof (cases "c < 0x10000")
        case True
        from s have "c < 0xD800 \<or> 0xDBFF < c" by (auto simp add: safe_def)
        from decode_u_bmp [OF True this r]
        have d: "decode_u (hex4 c @ rest) = Some (c, rest)" .
        from nq np ns True have "escape_ascii_char c = [92, 117] @ hex4 c"
          by (simp add: escape_ascii_char_def)
        with d show ?thesis by simp
      next
        case False
        then have ge: "0x10000 \<le> c" by simp
        from s have lt: "c < 0x110000" by (simp add: safe_def)
        note sp = split_astral [OF ge lt]
        from nq np ns False have e: "escape_ascii_char c =
            [92, 117] @ hex4 (0xD800 + (c - 0x10000) div 1024 mod 1024) @
            [92, 117] @ hex4 (0xDC00 + (c - 0x10000) mod 1024)"
          by (simp add: escape_ascii_char_def)
        from decode_u_pair [OF sp(1) sp(2) r] sp(3)
        have "decode_u (hex4 (0xD800 + (c - 0x10000) div 1024 mod 1024) @ [92, 117] @
           hex4 (0xDC00 + (c - 0x10000) mod 1024) @ rest) = Some (c, rest)"
          by simp
        then show ?thesis unfolding e by simp
      qed
    qed
  qed
qed

lemma scanstring_escaped:
  "list_all safe p \<Longrightarrow>
     scanstring acc (concat (map escape_ascii_char p) @ 34 # rest) = Some (rev acc @ p, rest)"
proof (induction p arbitrary: acc)
  case Nil
  show ?case by simp
next
  case (Cons c p)
  then have "safe c" "list_all safe p" by simp_all
  then show ?case
    using scanstring_escape_char [of c "concat (map escape_ascii_char p) @ 34 # rest" acc]
      Cons.IH [of "c # acc"] by simp
qed

lemma json_dumps_single:
  "json_dumps [(k, v)] =
     123 # 34 # concat (map escape_ascii_char k) @
     34 # 58 # 32 # 34 # concat (map escape_ascii_char v) @ [34, 125]"
  by (simp add: json_dumps_def py_encode_basestring_ascii_def str_def cp_def)

lemma lex_string:
  "list_all safe p \<Longrightarrow>
     lex m (34 # concat (map escape_ascii_char p) @ 34 # rest) = TVal (JStr p) # lex m rest"
  by (simp add: is_ws_def punct_def scan_atom_def scanstring_escaped)

lemma lex_dumps_single:
  assumes "list_all safe k" "list_all safe v"
  shows "lex m (json_dumps [(k, v)]) = [TLBrace, TVal (JStr k), TColon, TVal (JStr v), TRBrace]"
proof -
  have 1: "lex m [125] = [TRBrace]" by (simp add: is_ws_def punct_def)
  have 2: "lex m (34 # concat (map escape_ascii_char v) @ [34, 125]) =
             [TVal (JStr v), TRBrace]"
    using lex_string [OF assms(2), of m "[125]"] 1 by simp
  have 3: "lex m (58 # 32 # 34 # concat (map escape_ascii_char v) @ [34, 125]) =
             [TColon, TVal (JStr v), TRBrace]"
    using 2 by (simp add: is_ws_def punct_def)
  have 4: "lex m (34 # concat (map escape_ascii_char k) @
             34 # 58 # 32 # 34 # concat (map escape_ascii_char v) @ [34, 125]) =
             [TVal (JStr k), TColon, TVal (JStr v), TRBrace]"
    using lex_string [OF assms(1)] 3 by simp
  show ?thesis
    unfolding json_dumps_single using 4 by (simp add: is_ws_def punct_def)
qed

text \<open>One object is open while the dictionary is read, so a depth of one is needed.\<close>

lemma run_single:
  "run depth EValue [] [TLBrace, TVal (JStr k), TColon, TVal (JStr v), TRBrace] =
     (if depth = 0 then Inl RecursionError else Inr (JObj [(k, JStr v)]))"
  by (simp add: or_decode_error_def)

text \<open>
  Reading what was written gives the dictionary back, for keys and values without
  surrogates.
\<close>

lemma json_loads_dumps_single:
  assumes "list_all safe k" "list_all safe v" "0 < recursion_depth lim"
  shows "json_loads lim (json_dumps [(k, v)]) = Inr (JObj [(k, JStr v)])"
proof -
  have "\<not> startswith (json_dumps [(k, v)]) [0xFEFF]"
    by (simp add: json_dumps_single startswith_def)
  then show ?thesis
    using assms(3) by (simp only: json_loads_def lex_dumps_single [OF assms(1,2)] run_single)
      simp
qed

lemma json_dumps_nonempty: "json_dumps [(k, v)] \<noteq> []"
  by (simp add: json_dumps_single)

lemmas scan_eval =
  scan_atom_def scan_constant_def strip_prefix_def startswith_def match_number_def scan_int_def
  scan_frac_def scan_exp_def is_digit_def digits_value_def is_ws_def punct_def str_def cp_def
  decode_u_def unescape_def hexval_def Let_def int_from_digits_def or_decode_error_def

text \<open>The reader on some texts, as \<^verbatim>\<open>json.loads\<close> of CPython 3.11 answers them.\<close>

lemma json_loads_examples:
  \<open>json_loads cpython_limits (str ''{"a": [1, -2.5e3, null, true], "bA": {}} '') =
     Inr (JObj [(str ''a'', JArr [JInt 1, JFloat (Dec (- 25) 2), JNull, JBool True]),
                (str ''bA'', JObj [])])\<close>
  \<open>json_loads cpython_limits (str ''{"k": "v", "k": 2}'') =
     Inr (JObj [(str ''k'', JStr (str ''v'')), (str ''k'', JInt 2)])\<close>
  \<open>json_loads cpython_limits (str ''"x'' @ [92, 117] @ str ''d83d'' @ [92, 117] @ str ''de00" '') =
     Inr (JStr [120, 0x1F600])\<close>
  \<open>json_loads cpython_limits (str ''"'' @ [92, 117] @ str ''d83d'' @ [92, 117] @ str ''00e9"'') =
     Inr (JStr [0xD83D, 0xE9])\<close>
  \<open>json_loads cpython_limits (str ''1E-2'') = Inr (JFloat (Dec 1 (- 2)))\<close>
  \<open>json_loads cpython_limits (str ''-Infinity'') = Inr (JFloat NegInf)\<close>
  \<open>json_loads cpython_limits (str '' [ ] '') = Inr (JArr [])\<close>
  \<open>json_loads cpython_limits (str ''{"a": 1,}'') = Inl JSONDecodeError\<close>
  \<open>json_loads cpython_limits (str ''[1, 2'') = Inl JSONDecodeError\<close>
  \<open>json_loads cpython_limits (str ''[1 2]'') = Inl JSONDecodeError\<close>
  \<open>json_loads cpython_limits (str ''01'') = Inl JSONDecodeError\<close>
  \<open>json_loads cpython_limits (str ''2.'') = Inl JSONDecodeError\<close>
  \<open>json_loads cpython_limits (str ''1e+'') = Inl JSONDecodeError\<close>
  \<open>json_loads cpython_limits (str ''tru'') = Inl JSONDecodeError\<close>
  \<open>json_loads cpython_limits (str ''{1: 2}'') = Inl JSONDecodeError\<close>
  \<open>json_loads cpython_limits (str ''"a\<newline>b"'') = Inl JSONDecodeError\<close>
  \<open>json_loads cpython_limits (str ''{bad'') = Inl JSONDecodeError\<close>
  \<open>json_loads cpython_limits (0xFEFF # str ''{}'') = Inl JSONDecodeError\<close>
  by (simp_all add: json_loads_def cpython_limits_def scan_eval)

text \<open>
  The two limits. Arrays nested deeper than the depth allowed raise \<^verbatim>\<open>RecursionError\<close>
  at the first bracket beyond it, whatever follows; an integer literal longer than the
  limit raises \<^verbatim>\<open>ValueError\<close>.
\<close>

lemma lex_brackets: "lex m (replicate n 91 @ rest) = replicate n TLBrack @ lex m rest"
  by (induction n) (simp_all add: is_ws_def punct_def)

lemma run_brackets:
  assumes "e = EValue \<or> e = EValueOrEnd" "depth \<le> length st + n"
  shows "run depth e st (replicate (Suc n) TLBrack @ ts) = Inl RecursionError"
  using assms
proof (induction n arbitrary: e st)
  case 0
  then show ?case by auto
next
  case (Suc n)
  show ?case
  proof (cases "depth \<le> length st")
    case True
    with Suc.prems(1) show ?thesis by auto
  next
    case False
    with Suc.prems(2) have "depth \<le> length (InArr [] # st) + n" by simp
    from Suc.IH [OF _ this, of EValueOrEnd] False Suc.prems(1) show ?thesis by auto
  qed
qed

lemma json_loads_deep:
  assumes "recursion_depth lim < n"
  shows "json_loads lim (replicate n 91 @ rest) = Inl RecursionError"
proof -
  from assms obtain k where n: "n = Suc k" by (cases n) auto
  have b: "\<not> startswith (replicate n 91 @ rest) [0xFEFF]"
    by (simp add: n startswith_def)
  have "run (recursion_depth lim) EValue [] (replicate (Suc k) TLBrack @ ts)
          = Inl RecursionError" for ts
    using assms n by (intro run_brackets) simp_all
  then have "run (recursion_depth lim) EValue [] (lex (int_max_str_digits lim)
               (replicate n 91 @ rest)) = Inl RecursionError"
    unfolding lex_brackets n by blast
  with b show ?thesis by (simp only: json_loads_def if_False)
qed

lemma scan_constant_digit: "49 \<le> c \<Longrightarrow> c \<le> 57 \<Longrightarrow> scan_constant (c # r) = None"
  by (auto simp add: scan_constant_def strip_prefix_def startswith_def str_def cp_def)

lemma match_number_long:
  assumes "0 < m" "m < n"
  shows "\<exists>msg. match_number m (replicate n 49) = Some (Inl (ValueError msg), [])"
proof -
  from assms obtain k where n: "n = Suc k" by (cases n) auto
  have "scan_int (replicate n 49) = Some (replicate n 49, [])"
    by (simp add: n scan_int_def is_digit_def)
  then show ?thesis
    using assms by (simp add: match_number_def n scan_frac_def scan_exp_def int_from_digits_def)
qed

lemma json_loads_long_integer:
  assumes "0 < int_max_str_digits lim" "int_max_str_digits lim < n"
  shows "\<exists>msg. json_loads lim (replicate n 49) = Inl (ValueError msg)"
proof -
  from assms obtain k where n: "n = Suc k" by (cases n) auto
  from match_number_long [OF assms] obtain msg
    where m: "match_number (int_max_str_digits lim) (replicate n 49)
                = Some (Inl (ValueError msg), [])" by blast
  have "scan_atom (int_max_str_digits lim) (replicate n 49) = Some (Inl (ValueError msg), [])"
    using m by (simp add: n scan_atom_def scan_constant_digit)
  then have "lex (int_max_str_digits lim) (replicate n 49) = [TRaise (ValueError msg)]"
    by (simp add: n is_ws_def punct_def)
  moreover have "\<not> startswith (replicate n 49) [0xFEFF]"
    by (simp add: n startswith_def)
  ultimately show ?thesis by (simp add: json_loads_def)
qed

text \<open>
  The order of the exceptions is that of the text: the first place that does not fit
  decides, and a value that cannot be converted raises only where a value is expected.
\<close>

lemma json_loads_limit_examples:
  \<open>json_loads small_limits (str ''[[1234]]'') = Inl (ValueError (str
     ''Exceeds the limit (3 digits) for integer string conversion: value has 4 digits; use sys.set_int_max_str_digits() to increase the limit''))\<close>
  \<open>json_loads small_limits (str ''[[-123, 1234.5, 1234e1]]'') =
     Inr (JArr [JArr [JInt (- 123), JFloat (Dec 12345 (- 1)), JFloat (Dec 1234 1)]])\<close>
  \<open>json_loads small_limits (str ''{1234'') = Inl JSONDecodeError\<close>
  \<open>json_loads small_limits (str ''[1 1234'') = Inl JSONDecodeError\<close>
  \<open>json_loads small_limits (str ''[[[@'') = Inl RecursionError\<close>
  \<open>json_loads small_limits (str ''[[@[['') = Inl JSONDecodeError\<close>
  \<open>json_loads small_limits (str ''[1[[['') = Inl JSONDecodeError\<close>
  \<open>json_loads small_limits (str ''{"a": {"b": {}}}'') = Inl RecursionError\<close>
  \<open>json_loads small_limits (str ''[{}, [], {"a": 1}]'') =
     Inr (JArr [JObj [], JArr [], JObj [(str ''a'', JInt 1)]])\<close>
  by (simp_all add: json_loads_def small_limits_def scan_eval decimal.simps)

section \<open>Properties of the requesters, the workflows and the worker\<close>

lemma kept_safe: "kept c \<Longrightarrow> safe c"
  using uni_decimal_bound [of c] by (auto simp add: kept_def safe_def)

lemma format_safe: "list_all safe (format_phone_number s)"
  using format_kept [of s] by (auto simp add: list_all_iff kept_safe)

lemma format_nonempty: "format_phone_number s \<noteq> []"
  using format_startswith [of s] by (auto simp add: startswith_def)

lemma phone_number_key_safe: "list_all safe (str ''phone_number'')"
  by (simp add: str_def cp_def safe_def)

lemma job_phone_number_dumps:
  "0 < recursion_depth lim \<Longrightarrow>
   job_phone_number lim (Some (json_dumps [(str ''phone_number'', format_phone_number p)])) =
     Inr (JStr (format_phone_number p))"
  by (simp add: job_phone_number_def is_falsy_def json_dumps_nonempty dict_get_def
      json_loads_dumps_single [OF phone_number_key_safe format_safe])

lemma job_phone_number_absent:
  "job_phone_number lim None = Inr JNull" "job_phone_number lim (Some []) = Inr JNull"
  by (simp_all add: job_phone_number_def is_falsy_def)

lemma job_phone_number_unparsable:
  "json_loads lim s = Inl JSONDecodeError \<Longrightarrow> job_phone_number lim (Some s) = Inr JNull"
  by (simp add: job_phone_number_def is_falsy_def)

text \<open>
  The greeting never leaves: the call that should send it passes the text by position to
  a method that takes keywords only.
\<close>

lemma greet_or_wait_simps:
  "greet_or_wait JNull = Inl TypeError"
  "greet_or_wait (JStr (format_phone_number p)) = Inr []"
  by (simp_all add: greet_or_wait_def generate_reply_def greeting_def str_def format_nonempty)

lemma generate_reply_by_keyword:
  "generate_reply [] [(str ''instructions'', greeting)] =
     Inr [GenerateReply [(str ''instructions'', greeting)]]"
  by (simp add: generate_reply_def generate_reply_keywords_def)

lemma dispatch_events_valid:
  assumes "validate_phone_number (format_phone_number p)"
  shows "fst (dispatch_outbound_call api AGENT_NAME urandom p room_name agent_name) =
     [CreateDispatch
        \<lparr>req_agent_name = (if is_falsy agent_name then AGENT_NAME else the agent_name),
         req_room = (if is_falsy room_name
                     then str ''outbound-call-'' @ take 8 (uuid_hex (uuid4 urandom))
                     else the room_name),
         req_metadata = json_dumps [(str ''phone_number'', format_phone_number p)]\<rparr>]"
  using assms by (simp add: dispatch_outbound_call_def Let_def split: sum.splits)

lemma hexdigit_is_hexchar: "d < 16 \<Longrightarrow> is_hexchar (hexdigit d)"
  by (simp add: is_hexchar_def hexdigit_def)

lemma uuid_hex_prefix:
  "length (take 8 (uuid_hex u)) = 8 \<and> list_all is_hexchar (take 8 (uuid_hex u))"
  by (simp add: uuid_hex_def list_all_iff hexdigit_is_hexchar take_map)

text \<open>The identifier of the Python documentation's kind, from given random bytes.\<close>

lemma uuid4_example:
  "uuid_hex (uuid4 0x123456789abcdef0123456789abcdef0) =
     str ''123456789abc4ef0923456789abcdef0''"
  by (simp add: uuid_hex_def uuid4_def hexdigit_def str_def cp_def upt_rec)

text \<open>
  Claim C1. For every number whose normal form is valid, the dispatch requester sends one
  create-dispatch request, and the worker that reads this request's metadata (one object,
  so one level of nesting must be left to the reader) recovers the normal form and
  generates no greeting. Without metadata the worker recovers nothing and takes the
  greeting branch, and there the code does not do what the claim says: the call of
  \<^verbatim>\<open>generate_reply\<close> raises \<^verbatim>\<open>TypeError\<close>, so no greeting is generated. Both entrypoints
  are covered.
\<close>

theorem dispatch_metadata_roundtrip:
  assumes "validate_phone_number (format_phone_number p)" and "0 < recursion_depth lim"
  shows "\<exists>request.
      fst (dispatch_outbound_call api AGENT_NAME urandom p room_name agent_name) =
        [CreateDispatch request] \<and>
      voice_agent_entrypoint lim (Some (req_metadata request)) =
        Inr (JStr (format_phone_number p), [Connect, StartSession]) \<and>
      agent_entrypoint lim (Some (req_metadata request)) =
        Inr (JStr (format_phone_number p),
             [Connect, StartSession, RoomOn (str ''participant_connected''),
              RoomOn (str ''participant_disconnected'')]) \<and>
      job_phone_number lim None = Inr JNull \<and>
      voice_agent_entrypoint lim None = Inl TypeError \<and>
      agent_entrypoint lim None = Inl TypeError"
  by (simp add: dispatch_events_valid [OF assms(1)] voice_agent_entrypoint_def
      agent_entrypoint_def job_phone_number_dumps [OF assms(2)] job_phone_number_absent
      greet_or_wait_simps)

theorem dispatch_metadata_roundtrip_witness:
  "validate_phone_number (format_phone_number (str ''+1 (415) 555-1234'')) \<and>
   0 < recursion_depth cpython_limits \<and>
   format_phone_number (str ''+1 (415) 555-1234'') = str ''+14155551234'' \<and>
   (\<exists>request.
      fst (dispatch_outbound_call accepting_api (str ''telephony-agent'') 0
             (str ''+1 (415) 555-1234'') None None) = [CreateDispatch request] \<and>
      voice_agent_entrypoint cpython_limits (Some (req_metadata request)) =
        Inr (JStr (str ''+14155551234''), [Connect, StartSession]) \<and>
      agent_entrypoint cpython_limits (Some (req_metadata request)) =
        Inr (JStr (str ''+14155551234''),
             [Connect, StartSession, RoomOn (str ''participant_connected''),
              RoomOn (str ''participant_disconnected'')])) \<and>
   voice_agent_entrypoint cpython_limits None = Inl TypeError \<and>
   agent_entrypoint cpython_limits None = Inl TypeError"
proof -
  have f: "format_phone_number (str ''+1 (415) 555-1234'') = str ''+14155551234''"
    by (simp add: format_eval)
  have v: "validate_phone_number (format_phone_number (str ''+1 (415) 555-1234''))"
    unfolding f by (simp add: validate_eval)
  have d: "0 < recursion_depth cpython_limits"
    by (simp add: cpython_limits_def)
  from dispatch_metadata_roundtrip [OF v d, of accepting_api "str ''telephony-agent''" 0 None
      None]
  show ?thesis using v d f by auto
qed

text \<open>
  Claim C2, as amended. When the normal form of the number fails the validator, both
  requesters raise the invalid-input error and send no request. The number \<^verbatim>\<open>"12345"\<close> is
  not such an input: its normal form \<^verbatim>\<open>"+12345"\<close> passes the validator, and the request
  is sent.
\<close>

theorem invalid_number_sends_nothing:
  assumes "\<not> validate_phone_number (format_phone_number p)"
  shows "create_outbound_call api p room_name trunk_id participant_identity participant_name =
           ([], Inl (ValueError (str ''Invalid phone number format: '' @ format_phone_number p)))
         \<and> dispatch_outbound_call api AGENT_NAME urandom p room agent_name =
           ([], Inl (ValueError (str ''Invalid phone number format: '' @ format_phone_number p)))"
  using assms by (simp add: create_outbound_call_def dispatch_outbound_call_def)

theorem invalid_number_sends_nothing_witness:
  "\<not> validate_phone_number (format_phone_number (str ''0123'')) \<and>
   create_outbound_call accepting_api (str ''0123'') (str ''room-1'') (str ''ST_1'') None None =
     ([], Inl (ValueError (str ''Invalid phone number format: +0123''))) \<and>
   dispatch_outbound_call accepting_api (str ''telephony-agent'') 0 (str ''0123'') None None =
     ([], Inl (ValueError (str ''Invalid phone number format: +0123'')))"
proof -
  have f: "format_phone_number (str ''0123'') = str ''+0123''"
    by (simp add: format_eval)
  have v: "\<not> validate_phone_number (format_phone_number (str ''0123''))"
    unfolding f by (simp add: validate_eval)
  have m: "str ''Invalid phone number format: '' @ str ''+0123'' =
           str ''Invalid phone number format: +0123''"
    by (simp add: str_def)
  from invalid_number_sends_nothing [OF v, of accepting_api "str ''room-1''" "str ''ST_1''"
      None None "str ''telephony-agent''" 0 None None]
  show ?thesis using v by (simp add: f m)
qed

theorem call_to_12345_is_sent:
  "validate_phone_number (format_phone_number (str ''12345'')) \<and>
   fst (create_outbound_call accepting_api (str ''12345'') (str ''room-1'') (str ''ST_1'')
          None None) =
     [CreateSIPParticipant
        \<lparr>sip_trunk_id = Some (str ''ST_1''), sip_call_to = str ''+12345'',
         sip_room_name = str ''room-1'', sip_participant_identity = str ''caller-+12345'',
         sip_participant_name = str ''+12345''\<rparr>] \<and>
   fst (dispatch_outbound_call accepting_api (str ''telephony-agent'') 0 (str ''12345'')
          (Some (str ''room-1'')) None) =
     [CreateDispatch
        \<lparr>req_agent_name = str ''telephony-agent'', req_room = str ''room-1'',
         req_metadata = json_dumps [(str ''phone_number'', str ''+12345'')]\<rparr>]"
proof -
  have f: "format_phone_number (str ''12345'') = str ''+12345''"
    by (simp add: format_eval)
  have v: "validate_phone_number (str ''+12345'')"
    by (simp add: validate_eval)
  have m: "str ''caller-'' @ str ''+12345'' = str ''caller-+12345''"
    by (simp add: str_def)
  have r: "str ''room-1'' \<noteq> []"
    by (simp add: str_def)
  show ?thesis
    by (simp add: f v m r create_outbound_call_def dispatch_outbound_call_def or_else_def
        is_falsy_def accepting_api_def Let_def)
qed

text \<open>
  Claim C6, and what the code does instead. When the metadata is absent (\<^verbatim>\<open>None\<close> or the
  empty string) or \<^verbatim>\<open>json.loads\<close> answers it with \<^verbatim>\<open>JSONDecodeError\<close>, both entrypoints
  recover no number and take the greeting branch, as the claim says; but the greeting is
  not generated and the entrypoint does not return: the call of \<^verbatim>\<open>generate_reply\<close> raises
  \<^verbatim>\<open>TypeError\<close>.
\<close>

theorem unparsable_metadata_greeting_raises:
  assumes "metadata = None \<or> metadata = Some [] \<or>
           (\<exists>s. metadata = Some s \<and> json_loads lim s = Inl JSONDecodeError)"
  shows "job_phone_number lim metadata = Inr JNull \<and>
         greet_or_wait JNull = generate_reply [greeting] [] \<and>
         generate_reply [greeting] [] = Inl TypeError \<and>
         voice_agent_entrypoint lim metadata = Inl TypeError \<and>
         agent_entrypoint lim metadata = Inl TypeError"
proof -
  from assms have "job_phone_number lim metadata = Inr JNull"
    by (auto simp add: job_phone_number_absent job_phone_number_unparsable)
  moreover have "generate_reply [greeting] [] = Inl TypeError"
    by (simp add: generate_reply_def greeting_def str_def)
  ultimately show ?thesis
    by (simp add: voice_agent_entrypoint_def agent_entrypoint_def greet_or_wait_def)
qed

theorem unparsable_metadata_greeting_raises_witness:
  \<open>json_loads cpython_limits (str ''{"phone_number": +14155551234}'') = Inl JSONDecodeError \<and>
   job_phone_number cpython_limits (Some (str ''{"phone_number": +14155551234}'')) = Inr JNull \<and>
   voice_agent_entrypoint cpython_limits (Some (str ''{"phone_number": +14155551234}'')) =
     Inl TypeError \<and>
   agent_entrypoint cpython_limits (Some (str ''{"phone_number": +14155551234}'')) =
     Inl TypeError \<and>
   voice_agent_entrypoint cpython_limits None = Inl TypeError \<and>
   agent_entrypoint cpython_limits (Some []) = Inl TypeError\<close>
proof -
  have j: \<open>json_loads cpython_limits (str ''{"phone_number": +14155551234}'') =
           Inl JSONDecodeError\<close>
    by (simp add: json_loads_def cpython_limits_def scan_eval)
  from unparsable_metadata_greeting_raises
         [of \<open>Some (str ''{"phone_number": +14155551234}'')\<close> cpython_limits]
    unparsable_metadata_greeting_raises [of None cpython_limits]
    unparsable_metadata_greeting_raises [of "Some []" cpython_limits] j
  show ?thesis by simp
qed

text \<open>
  Metadata that \<^verbatim>\<open>json.loads\<close> answers with another exception, or with a value that is
  not an object, leaves the entrypoint with an exception before the room is joined: only
  \<^verbatim>\<open>JSONDecodeError\<close> is caught.
\<close>

lemma non_object_metadata_raises:
  "voice_agent_entrypoint cpython_limits (Some (str ''[1, 2]'')) = Inl AttributeError"
  "agent_entrypoint cpython_limits (Some (str ''null'')) = Inl AttributeError"
  by (simp_all add: voice_agent_entrypoint_def agent_entrypoint_def job_phone_number_def
      is_falsy_def json_loads_def cpython_limits_def scan_eval)

lemma deep_metadata_raises:
  assumes "recursion_depth lim < n"
  shows "voice_agent_entrypoint lim (Some (replicate n 91)) = Inl RecursionError"
    and "agent_entrypoint lim (Some (replicate n 91)) = Inl RecursionError"
proof -
  from assms have "replicate n (91 :: nat) \<noteq> []" by auto
  moreover from json_loads_deep [OF assms, of "[]"]
  have "json_loads lim (replicate n 91) = Inl RecursionError" by simp
  ultimately have "job_phone_number lim (Some (replicate n 91)) = Inl RecursionError"
    by (simp add: job_phone_number_def is_falsy_def)
  then show "voice_agent_entrypoint lim (Some (replicate n 91)) = Inl RecursionError"
    and "agent_entrypoint lim (Some (replicate n 91)) = Inl RecursionError"
    by (simp_all add: voice_agent_entrypoint_def agent_entrypoint_def)
qed

lemma long_integer_metadata_raises:
  assumes "0 < int_max_str_digits lim" "int_max_str_digits lim < n"
  shows "\<exists>msg. voice_agent_entrypoint lim (Some (replicate n 49)) = Inl (ValueError msg)
             \<and> agent_entrypoint lim (Some (replicate n 49)) = Inl (ValueError msg)"
proof -
  from assms have "replicate n (49 :: nat) \<noteq> []" by auto
  moreover from json_loads_long_integer [OF assms] obtain msg
    where "json_loads lim (replicate n 49) = Inl (ValueError msg)" by blast
  ultimately have "job_phone_number lim (Some (replicate n 49)) = Inl (ValueError msg)"
    by (simp add: job_phone_number_def is_falsy_def)
  then show ?thesis
    by (simp add: voice_agent_entrypoint_def agent_entrypoint_def)
qed

text \<open>
  Claim C8. For a number whose normal form is valid and no room name (\<^verbatim>\<open>None\<close> or the
  empty string), the dispatch requester sends one create-dispatch request for the room
  \<^verbatim>\<open>outbound-call-\<close> followed by exactly 8 hexadecimal characters, and when the platform
  answers with a dispatch it returns the dispatch identifier, that room name, the normal
  form of the number and the agent name. (When the platform raises, so does the requester.)
\<close>

theorem generated_room_name:
  assumes "validate_phone_number (format_phone_number p)" and "is_falsy room_name"
  shows "\<exists>h request.
      length h = 8 \<and> list_all is_hexchar h \<and>
      req_room request = str ''outbound-call-'' @ h \<and>
      fst (dispatch_outbound_call api AGENT_NAME urandom p room_name agent_name) =
        [CreateDispatch request] \<and>
      (case create_dispatch api request of
         Inl e \<Rightarrow>
           snd (dispatch_outbound_call api AGENT_NAME urandom p room_name agent_name) = Inl e
       | Inr dispatch_id \<Rightarrow>
           snd (dispatch_outbound_call api AGENT_NAME urandom p room_name agent_name) =
             Inr \<lparr>info_dispatch_id = dispatch_id,
                  info_room_name = str ''outbound-call-'' @ h,
                  info_phone_number = format_phone_number p,
                  info_agent_name =
                    (if is_falsy agent_name then AGENT_NAME else the agent_name)\<rparr>)"
proof -
  let ?h = "take 8 (uuid_hex (uuid4 urandom))"
  let ?request = "\<lparr>req_agent_name = (if is_falsy agent_name then AGENT_NAME else the agent_name),
                   req_room = str ''outbound-call-'' @ ?h,
                   req_metadata = json_dumps [(str ''phone_number'', format_phone_number p)]\<rparr>"
  have h: "length ?h = 8" "list_all is_hexchar ?h"
    using uuid_hex_prefix [of "uuid4 urandom"] by simp_all
  have r: "req_room ?request = str ''outbound-call-'' @ ?h" by simp
  have e: "fst (dispatch_outbound_call api AGENT_NAME urandom p room_name agent_name) =
             [CreateDispatch ?request]"
    using assms by (simp add: dispatch_events_valid)
  have s: "(case create_dispatch api ?request of
         Inl e \<Rightarrow>
           snd (dispatch_outbound_call api AGENT_NAME urandom p room_name agent_name) = Inl e
       | Inr dispatch_id \<Rightarrow>
           snd (dispatch_outbound_call api AGENT_NAME urandom p room_name agent_name) =
             Inr \<lparr>info_dispatch_id = dispatch_id,
                  info_room_name = str ''outbound-call-'' @ ?h,
                  info_phone_number = format_phone_number p,
                  info_agent_name =
                    (if is_falsy agent_name then AGENT_NAME else the agent_name)\<rparr>)"
    using assms by (simp add: dispatch_outbound_call_def Let_def split: sum.splits)
  from h r e s show ?thesis by blast
qed

theorem generated_room_name_witness:
  "validate_phone_number (format_phone_number (str ''+14155551234'')) \<and> is_falsy None \<and>
   (\<exists>h request.
      length h = 8 \<and> list_all is_hexchar h \<and>
      req_room request = str ''outbound-call-'' @ h \<and>
      fst (dispatch_outbound_call accepting_api (str ''telephony-agent'')
             0x123456789abcdef0123456789abcdef0 (str ''+14155551234'') None None) =
        [CreateDispatch request]) \<and>
   snd (dispatch_outbound_call accepting_api (str ''telephony-agent'')
          0x123456789abcdef0123456789abcdef0 (str ''+14155551234'') None None) =
     Inr \<lparr>info_dispatch_id = str ''AD_1'', info_room_name = str ''outbound-call-12345678'',
          info_phone_number = str ''+14155551234'',
          info_agent_name = str ''telephony-agent''\<rparr>"
proof -
  have f: "format_phone_number (str ''+14155551234'') = str ''+14155551234''"
    by (simp add: format_eval)
  have v: "validate_phone_number (format_phone_number (str ''+14155551234''))"
    unfolding f by (simp add: validate_eval)
  have n: "is_falsy None" by (simp add: is_falsy_def)
  have u: "str ''outbound-call-'' @ take 8 (uuid_hex (uuid4 0x123456789abcdef0123456789abcdef0))
           = str ''outbound-call-12345678''"
    by (simp add: uuid4_example) (simp add: str_def)
  from generated_room_name [OF v n, of accepting_api "str ''telephony-agent''"
      "0x123456789abcdef0123456789abcdef0" None]
  obtain h request where
    "length h = 8" "list_all is_hexchar h" "req_room request = str ''outbound-call-'' @ h"
    "fst (dispatch_outbound_call accepting_api (str ''telephony-agent'')
             0x123456789abcdef0123456789abcdef0 (str ''+14155551234'') None None) =
        [CreateDispatch request]"
    by blast
  moreover have "snd (dispatch_outbound_call accepting_api (str ''telephony-agent'')
          0x123456789abcdef0123456789abcdef0 (str ''+14155551234'') None None) =
     Inr \<lparr>info_dispatch_id = str ''AD_1'', info_room_name = str ''outbound-call-12345678'',
          info_phone_number = str ''+14155551234'',
          info_agent_name = str ''telephony-agent''\<rparr>"
    using v by (simp add: dispatch_outbound_call_def Let_def n u f accepting_api_def)
  ultimately show ?thesis using v n by blast
qed

text \<open>
  Claim C9. In both test-call workflows, whenever a create-SIP-participant request is
  sent, the run is exactly: the create-dispatch request, a pause of 5 seconds, that
  request; and the call is placed into the room the dispatch request named. The pause is
  a fixed delay: nothing between the two requests asks the platform whether the worker
  has joined.
\<close>

theorem call_follows_dispatch:
  assumes "tr = fst (make_test_call api AGENT_NAME urandom env_trunk_id p trunk_id) \<or>
           tr = fst (make_call api urandom env_trunk_id p)"
    and "CreateSIPParticipant call \<in> set tr"
  shows "\<exists>request. tr = [CreateDispatch request, Sleep 5, CreateSIPParticipant call] \<and>
           sip_room_name call = req_room request"
  using assms(1)
proof
  assume t: "tr = fst (make_test_call api AGENT_NAME urandom env_trunk_id p trunk_id)"
  show ?thesis
  proof (cases "validate_phone_number (format_phone_number p)")
    case False
    with t assms(2) show ?thesis
      by (simp add: make_test_call_def dispatch_outbound_call_def)
  next
    case True
    let ?room = "str ''outbound-call-'' @ take 8 (uuid_hex (uuid4 urandom))"
    let ?request = "\<lparr>req_agent_name = AGENT_NAME, req_room = ?room,
        req_metadata = json_dumps [(str ''phone_number'', format_phone_number p)]\<rparr>"
    let ?trunk = "if is_falsy trunk_id then env_trunk_id else trunk_id"
    show ?thesis
    proof (cases "create_dispatch api ?request")
      case (Inl e)
      with True have "dispatch_outbound_call api AGENT_NAME urandom p None None =
          ([CreateDispatch ?request], Inl e)"
        by (simp add: dispatch_outbound_call_def Let_def is_falsy_def)
      with t assms(2) show ?thesis by (simp add: make_test_call_def)
    next
      case (Inr dispatch_id)
      with True have d: "dispatch_outbound_call api AGENT_NAME urandom p None None =
          ([CreateDispatch ?request],
           Inr \<lparr>info_dispatch_id = dispatch_id, info_room_name = ?room,
                info_phone_number = format_phone_number p, info_agent_name = AGENT_NAME\<rparr>)"
        by (simp add: dispatch_outbound_call_def Let_def is_falsy_def)
      show ?thesis
      proof (cases "is_falsy ?trunk")
        case True
        with d t assms(2) show ?thesis by (simp add: make_test_call_def Let_def)
      next
        case False
        with d t True have "tr = [CreateDispatch ?request, Sleep 5,
            CreateSIPParticipant
              \<lparr>sip_trunk_id = Some (the ?trunk), sip_call_to = format_phone_number p,
               sip_room_name = ?room,
               sip_participant_identity = str ''caller-'' @ format_phone_number p,
               sip_participant_name = format_phone_number p\<rparr>]"
          by (simp add: make_test_call_def create_outbound_call_def Let_def or_else_def
              split: sum.splits)
        with assms(2) show ?thesis by auto
      qed
    qed
  qed
next
  assume "tr = fst (make_call api urandom env_trunk_id p)"
  with assms(2) show ?thesis
    by (auto simp add: make_call_def Let_def split: sum.splits)
qed

theorem call_follows_dispatch_witness:
  "fst (make_test_call accepting_api (str ''telephony-agent'')
          0x123456789abcdef0123456789abcdef0 None (str ''+14155551234'') (Some (str ''ST_1'')))
     = [CreateDispatch
          \<lparr>req_agent_name = str ''telephony-agent'',
           req_room = str ''outbound-call-12345678'',
           req_metadata = json_dumps [(str ''phone_number'', str ''+14155551234'')]\<rparr>,
        Sleep 5,
        CreateSIPParticipant
          \<lparr>sip_trunk_id = Some (str ''ST_1''), sip_call_to = str ''+14155551234'',
           sip_room_name = str ''outbound-call-12345678'',
           sip_participant_identity = str ''caller-+14155551234'',
           sip_participant_name = str ''+14155551234''\<rparr>] \<and>
   (\<exists>request.
      fst (make_test_call accepting_api (str ''telephony-agent'')
             0x123456789abcdef0123456789abcdef0 None (str ''+14155551234'')
             (Some (str ''ST_1''))) =
        [CreateDispatch request, Sleep 5,
         CreateSIPParticipant
           \<lparr>sip_trunk_id = Some (str ''ST_1''), sip_call_to = str ''+14155551234'',
            sip_room_name = str ''outbound-call-12345678'',
            sip_participant_identity = str ''caller-+14155551234'',
            sip_participant_name = str ''+14155551234''\<rparr>] \<and>
      req_room request = str ''outbound-call-12345678'')"
proof -
  let ?call = "\<lparr>sip_trunk_id = Some (str ''ST_1''), sip_call_to = str ''+14155551234'',
           sip_room_name = str ''outbound-call-12345678'',
           sip_participant_identity = str ''caller-+14155551234'',
           sip_participant_name = str ''+14155551234''\<rparr>"
  let ?tr = "fst (make_test_call accepting_api (str ''telephony-agent'')
          0x123456789abcdef0123456789abcdef0 None (str ''+14155551234'') (Some (str ''ST_1'')))"
  have f: "format_phone_number (str ''+14155551234'') = str ''+14155551234''"
    by (simp add: format_eval)
  have v: "validate_phone_number (str ''+14155551234'')"
    by (simp add: validate_eval)
  have u: "str ''outbound-call-'' @ take 8 (uuid_hex (uuid4 0x123456789abcdef0123456789abcdef0))
           = str ''outbound-call-12345678''"
    by (simp add: uuid4_example) (simp add: str_def)
  have m: "str ''caller-'' @ str ''+14155551234'' = str ''caller-+14155551234''"
    "str ''ST_1'' \<noteq> []"
    by (simp_all add: str_def)
  have e: "?tr = [CreateDispatch
          \<lparr>req_agent_name = str ''telephony-agent'',
           req_room = str ''outbound-call-12345678'',
           req_metadata = json_dumps [(str ''phone_number'', str ''+14155551234'')]\<rparr>,
        Sleep 5, CreateSIPParticipant ?call]"
    by (simp add: make_test_call_def dispatch_outbound_call_def create_outbound_call_def
        Let_def f v u m is_falsy_def or_else_def accepting_api_def)
  then have "CreateSIPParticipant ?call \<in> set ?tr" by simp
  from call_follows_dispatch [OF disjI1 [OF refl] this] e show ?thesis by simp
qed

section \<open>Properties of the provisioning scripts\<close>

lemma trunk_attribute_simps [simp]:
  "trunk_attribute ''credentials_lists'' operation tw = operation tw"
  "trunk_attribute ''origination_urls'' operation tw = operation tw"
  "trunk_attribute ''phone_numbers'' operation tw = operation tw"
  "trunk_attribute ''credential_lists'' operation tw = ([], tw, Inl AttributeError)"
  by (simp_all add: trunk_attribute_def trunk_context_attributes_def)

text \<open>Sequencing keeps a run idle when both parts are.\<close>

lemma idle_then_do:
  assumes "idle tw x" and "\<And>v. result_of x = Inr v \<Longrightarrow> idle tw (f v tw)"
  shows "idle tw (then_do x f)"
proof -
  obtain tr tw' r where x: "x = (tr, tw', r)" by (cases x) auto
  with assms(1) have tw': "tw' = tw" and tr: "list_all (\<lambda>r. \<not> is_creation r) tr"
    by (simp_all add: idle_def account_after_def requests_of_def)
  show ?thesis
  proof (cases r)
    case (Inl e)
    with x tw' tr show ?thesis
      by (simp add: then_do_def idle_def account_after_def requests_of_def)
  next
    case (Inr v)
    with x have "result_of x = Inr v" by (simp add: result_of_def)
    from assms(2) [OF this] obtain tr2 r2 where f: "f v tw = (tr2, tw, r2)"
      and tr2: "list_all (\<lambda>r. \<not> is_creation r) tr2"
      by (cases "f v tw") (auto simp add: idle_def account_after_def requests_of_def)
    with x tw' tr Inr show ?thesis
      by (simp add: then_do_def idle_def account_after_def requests_of_def)
  qed
qed

lemma then_do_Inr: "then_do (tr, tw, Inr v) f = (case f v tw of (tr', tw', r) \<Rightarrow> (tr @ tr', tw', r))"
  by (simp add: then_do_def)

lemma request_accepted:
  "request (\<lambda>r. None) req answer tw = ([req], fst (answer tw), Inr (snd (answer tw)))"
  by (simp add: request_def split: prod.splits)

subsection \<open>Step 1\<close>

lemma find_append:
  "find P (xs @ ys) = (case find P xs of Some x \<Rightarrow> Some x | None \<Rightarrow> find P ys)"
  by (induction xs) auto

lemma credential_list_first:
  assumes "py_in (str ''livekit'') (lower (str ''LiveKit SIP Credentials''))"
  shows "\<exists>tr cls n cl. find_or_create_credential_list lower (\<lambda>r. None) tw
            = (tr, tw\<lparr>credential_lists := cls, next_sid := n\<rparr>, Inr cl)
          \<and> has_credential_list lower cls cl"
proof (cases "find (\<lambda>cl. py_in (str ''livekit'') (lower (snd cl))) (credential_lists tw)")
  case None
  let ?new = "(next_sid tw, str ''LiveKit SIP Credentials'')"
  have "find_or_create_credential_list lower (\<lambda>r. None) tw =
        ([CredentialListsList, CredentialListsCreate (str ''LiveKit SIP Credentials'')],
         tw\<lparr>credential_lists := credential_lists tw @ [?new], next_sid := next_sid tw + 1\<rparr>,
         Inr ?new)"
    using None
    by (simp add: find_or_create_credential_list_def credential_lists_list_def
        credential_lists_create_def request_accepted then_do_Inr)
  moreover have "has_credential_list lower (credential_lists tw @ [?new]) ?new"
    using None assms by (simp add: has_credential_list_def find_append)
  ultimately show ?thesis by blast
next
  case (Some cl)
  then have "find_or_create_credential_list lower (\<lambda>r. None) tw =
        ([CredentialListsList],
         tw\<lparr>credential_lists := credential_lists tw, next_sid := next_sid tw\<rparr>, Inr cl)"
    by (simp add: find_or_create_credential_list_def credential_lists_list_def
        request_accepted then_do_Inr pure_run_def)
  moreover have "has_credential_list lower (credential_lists tw) cl"
    using Some by (simp add: has_credential_list_def)
  ultimately show ?thesis by blast
qed

lemma credential_list_again:
  assumes "has_credential_list lower (credential_lists tw) cl"
  shows "idle tw (find_or_create_credential_list lower fails tw)"
    and "result_of (find_or_create_credential_list lower fails tw) = Inr v \<Longrightarrow> v = cl"
  using assms
  by (auto simp add: find_or_create_credential_list_def credential_lists_list_def request_def
      then_do_def pure_run_def idle_def account_after_def requests_of_def result_of_def
      has_credential_list_def split: option.splits)

subsection \<open>Step 2\<close>

lemma credentials_first:
  "\<exists>tr cs. add_credentials (\<lambda>r. None) cfg l tw = (tr, tw\<lparr>credentials := cs\<rparr>, Inr ())
         \<and> has_credentials cfg l cs"
proof (cases "has_credentials cfg l (credentials tw)")
  case True
  then have "add_credentials (\<lambda>r. None) cfg l tw
               = ([CredentialsList l], tw\<lparr>credentials := credentials tw\<rparr>, Inr ())"
    by (simp add: add_credentials_def credentials_list_def request_accepted then_do_Inr
        pure_run_def has_credentials_def)
  with True show ?thesis by blast
next
  case False
  let ?cs = "credentials tw @ [(l, TWILIO_SIP_USERNAME cfg, TWILIO_SIP_PASSWORD cfg)]"
  from False have "add_credentials (\<lambda>r. None) cfg l tw
      = ([CredentialsList l,
          CredentialsCreate l (TWILIO_SIP_USERNAME cfg) (TWILIO_SIP_PASSWORD cfg)],
         tw\<lparr>credentials := ?cs\<rparr>, Inr ())"
    by (simp add: add_credentials_def credentials_list_def credentials_create_def
        request_accepted then_do_Inr pure_run_def has_credentials_def)
  moreover have "has_credentials cfg l ?cs"
    by (simp add: has_credentials_def)
  ultimately show ?thesis by blast
qed

lemma credentials_again:
  assumes "has_credentials cfg l (credentials tw)"
  shows "idle tw (add_credentials fails cfg l tw)"
  using assms
  by (auto simp add: add_credentials_def credentials_list_def request_def
      then_do_def pure_run_def idle_def account_after_def requests_of_def
      has_credentials_def split: option.splits)

subsection \<open>Step 3\<close>

lemma associate_first:
  "\<exists>tr as. associate_credential_list (\<lambda>r. None) t l tw
               = (tr, tw\<lparr>trunk_credential_lists := as\<rparr>, Inr ())
         \<and> is_associated t l as"
proof (cases "is_associated t l (trunk_credential_lists tw)")
  case True
  then have "associate_credential_list (\<lambda>r. None) t l tw
     = ([TrunkCredentialListsList t],
        tw\<lparr>trunk_credential_lists := trunk_credential_lists tw\<rparr>, Inr ())"
    by (simp add: associate_credential_list_def trunk_credential_lists_list_def
        request_accepted then_do_Inr pure_run_def is_associated_def)
  with True show ?thesis by blast
next
  case False
  let ?as = "trunk_credential_lists tw @ [(t, l)]"
  from False have "associate_credential_list (\<lambda>r. None) t l tw
     = ([TrunkCredentialListsList t, TrunkCredentialListsCreate t l],
        tw\<lparr>trunk_credential_lists := ?as\<rparr>, Inr ())"
    by (simp add: associate_credential_list_def trunk_credential_lists_list_def
        trunk_credential_lists_create_def request_accepted then_do_Inr pure_run_def
        is_associated_def)
  moreover have "is_associated t l ?as"
    by (simp add: is_associated_def)
  ultimately show ?thesis by blast
qed

lemma associate_again:
  assumes "is_associated t l (trunk_credential_lists tw)"
  shows "idle tw (associate_credential_list fails t l tw)"
  using assms
  by (auto simp add: associate_credential_list_def trunk_credential_lists_list_def request_def
      then_do_def pure_run_def idle_def account_after_def requests_of_def
      is_associated_def split: option.splits)

subsection \<open>Step 4\<close>

lemma startswith_refl: "startswith s s"
  by (simp add: startswith_def)

lemma py_in_refl: "py_in s s"
  by (cases s) (simp_all add: startswith_refl)

lemma origination_url_first:
  "\<exists>tr us. add_origination_url (\<lambda>r. None) t tw = (tr, tw\<lparr>origination_urls := us\<rparr>, Inr ())
         \<and> has_origination_url t us"
proof (cases "has_origination_url t (origination_urls tw)")
  case True
  then have "add_origination_url (\<lambda>r. None) t tw
     = ([OriginationUrlsList t], tw\<lparr>origination_urls := origination_urls tw\<rparr>, Inr ())"
    by (simp add: add_origination_url_def origination_urls_list_def
        request_accepted then_do_Inr pure_run_def has_origination_url_def)
  with True show ?thesis by blast
next
  case False
  let ?us = "origination_urls tw @ [(t, livekit_origination_url LIVEKIT_SIP_URI)]"
  from False have "add_origination_url (\<lambda>r. None) t tw
     = ([OriginationUrlsList t,
         OriginationUrlsCreate t (livekit_origination_url LIVEKIT_SIP_URI)],
        tw\<lparr>origination_urls := ?us\<rparr>, Inr ())"
    by (simp add: add_origination_url_def origination_urls_list_def
        origination_urls_create_def request_accepted then_do_Inr pure_run_def
        has_origination_url_def)
  moreover have "has_origination_url t ?us"
    by (simp add: has_origination_url_def livekit_origination_url_def py_in_refl)
  ultimately show ?thesis by blast
qed

lemma origination_url_again:
  assumes "has_origination_url t (origination_urls tw)"
  shows "idle tw (add_origination_url fails t tw)"
  using assms
  by (auto simp add: add_origination_url_def origination_urls_list_def request_def
      then_do_def pure_run_def idle_def account_after_def requests_of_def
      has_origination_url_def split: option.splits)

subsection \<open>Step 5\<close>

lemma map_of_hd_filter:
  assumes "distinct (map fst xs)" and "filter (\<lambda>n. snd n = v) xs \<noteq> []"
  shows "map_of xs (fst (hd (filter (\<lambda>n. snd n = v) xs))) = Some v"
proof -
  let ?x = "hd (filter (\<lambda>n. snd n = v) xs)"
  from assms(2) have "?x \<in> set (filter (\<lambda>n. snd n = v) xs)" by (rule hd_in_set)
  then have "?x \<in> set xs" and "snd ?x = v" by auto
  then have "(fst ?x, v) \<in> set xs" by (metis prod.collapse)
  with assms(1) show ?thesis by (rule map_of_is_SomeI)
qed

lemma phone_number_first:
  assumes "distinct (map fst (incoming_phone_numbers tw))"
  shows "\<exists>tr ns. associate_phone_number (\<lambda>r. None) cfg tw
                   = (tr, tw\<lparr>trunk_phone_numbers := ns\<rparr>, Inr ())
         \<and> phone_number_settled cfg (incoming_phone_numbers tw) ns"
proof -
  let ?t = "TWILIO_SIP_TRUNK_SID cfg"
  let ?number = "the (TWILIO_PHONE_NUMBER cfg)"
  let ?found = "filter (\<lambda>n. snd n = ?number) (incoming_phone_numbers tw)"
  have same: "tw\<lparr>trunk_phone_numbers := trunk_phone_numbers tw\<rparr> = tw" by simp
  consider (unset) "is_falsy (TWILIO_PHONE_NUMBER cfg)"
    | (associated) "\<not> is_falsy (TWILIO_PHONE_NUMBER cfg)"
        "list_ex (\<lambda>tn. snd tn = ?number)
           (map snd (filter (\<lambda>n. fst n = ?t) (trunk_phone_numbers tw)))"
    | (unknown) "\<not> is_falsy (TWILIO_PHONE_NUMBER cfg)"
        "\<not> list_ex (\<lambda>tn. snd tn = ?number)
           (map snd (filter (\<lambda>n. fst n = ?t) (trunk_phone_numbers tw)))"
        "?found = []"
    | (new) "\<not> is_falsy (TWILIO_PHONE_NUMBER cfg)"
        "\<not> list_ex (\<lambda>tn. snd tn = ?number)
           (map snd (filter (\<lambda>n. fst n = ?t) (trunk_phone_numbers tw)))"
        "?found \<noteq> []"
    by blast
  then show ?thesis
  proof cases
    case unset
    then have "associate_phone_number (\<lambda>r. None) cfg tw
                 = ([], tw\<lparr>trunk_phone_numbers := trunk_phone_numbers tw\<rparr>, Inr ())"
      by (simp add: associate_phone_number_def pure_run_def)
    moreover from unset
    have "phone_number_settled cfg (incoming_phone_numbers tw) (trunk_phone_numbers tw)"
      by (simp add: phone_number_settled_def)
    ultimately show ?thesis by blast
  next
    case associated
    then have "associate_phone_number (\<lambda>r. None) cfg tw
                 = ([TrunkPhoneNumbersList ?t],
                    tw\<lparr>trunk_phone_numbers := trunk_phone_numbers tw\<rparr>, Inr ())"
      by (simp add: associate_phone_number_def trunk_phone_numbers_list_def request_accepted
          then_do_Inr pure_run_def)
    moreover from associated
    have "phone_number_settled cfg (incoming_phone_numbers tw) (trunk_phone_numbers tw)"
      by (simp add: phone_number_settled_def)
    ultimately show ?thesis by blast
  next
    case unknown
    then have "associate_phone_number (\<lambda>r. None) cfg tw
                 = ([TrunkPhoneNumbersList ?t, IncomingPhoneNumbersList ?number],
                    tw\<lparr>trunk_phone_numbers := trunk_phone_numbers tw\<rparr>, Inr ())"
      by (simp add: associate_phone_number_def trunk_phone_numbers_list_def
          create_associate_phone_number_def incoming_phone_numbers_list_def request_accepted
          then_do_Inr pure_run_def)
    moreover from unknown
    have "phone_number_settled cfg (incoming_phone_numbers tw) (trunk_phone_numbers tw)"
      by (simp add: phone_number_settled_def)
    ultimately show ?thesis by blast
  next
    case new
    let ?p = "fst (hd ?found)"
    let ?ns = "trunk_phone_numbers tw @ [(?t, ?p, ?number)]"
    from assms new(3) have "map_of (incoming_phone_numbers tw) ?p = Some ?number"
      by (rule map_of_hd_filter)
    with new have "associate_phone_number (\<lambda>r. None) cfg tw
                 = ([TrunkPhoneNumbersList ?t, IncomingPhoneNumbersList ?number,
                     TrunkPhoneNumbersCreate ?t ?p],
                    tw\<lparr>trunk_phone_numbers := ?ns\<rparr>, Inr ())"
      by (simp add: associate_phone_number_def trunk_phone_numbers_list_def
          create_associate_phone_number_def incoming_phone_numbers_list_def
          trunk_phone_numbers_create_def request_accepted then_do_Inr pure_run_def)
    moreover have "phone_number_settled cfg (incoming_phone_numbers tw) ?ns"
      by (simp add: phone_number_settled_def)
    ultimately show ?thesis by blast
  qed
qed

lemma phone_number_again:
  assumes "phone_number_settled cfg (incoming_phone_numbers tw) (trunk_phone_numbers tw)"
  shows "idle tw (associate_phone_number fails cfg tw)"
  using assms
  by (auto simp add: associate_phone_number_def trunk_phone_numbers_list_def
      create_associate_phone_number_def incoming_phone_numbers_list_def request_def
      then_do_def pure_run_def idle_def account_after_def requests_of_def
      phone_number_settled_def split: option.splits)

subsection \<open>The whole script\<close>

lemma update_provision:
  "account_after (update_twilio_trunk_auto lower fails cfg tw)
     = account_after (update_twilio_trunk_body lower fails cfg tw)"
  "requests_of (update_twilio_trunk_auto lower fails cfg tw)
     = requests_of (update_twilio_trunk_body lower fails cfg tw)"
  "result_of (update_twilio_trunk_auto lower fails cfg tw)
     = (case result_of (update_twilio_trunk_body lower fails cfg tw) of Inl e \<Rightarrow> Exit 1 | Inr u \<Rightarrow> Completed)"
  by (simp_all add: update_twilio_trunk_auto_def account_after_def
      requests_of_def result_of_def split: prod.splits sum.splits)

lemma provision_first:
  assumes "py_in (str ''livekit'') (lower (str ''LiveKit SIP Credentials''))"
      and "distinct (map fst (incoming_phone_numbers tw))"
  shows "provisioned lower cfg (account_after (update_twilio_trunk_body lower (\<lambda>r. None) cfg tw))"
    and "result_of (update_twilio_trunk_body lower (\<lambda>r. None) cfg tw) = Inr ()"
proof -
  let ?t = "TWILIO_SIP_TRUNK_SID cfg"
  from credential_list_first [of lower tw, OF assms(1)] obtain tr1 cls n cl
    where s1: "find_or_create_credential_list lower (\<lambda>r. None) tw
                 = (tr1, tw\<lparr>credential_lists := cls, next_sid := n\<rparr>, Inr cl)"
      and p1: "has_credential_list lower cls cl" by blast
  let ?tw1 = "tw\<lparr>credential_lists := cls, next_sid := n\<rparr>"
  from credentials_first obtain tr2 cs
    where s2: "add_credentials (\<lambda>r. None) cfg (fst cl) ?tw1 = (tr2, ?tw1\<lparr>credentials := cs\<rparr>, Inr ())"
      and p2: "has_credentials cfg (fst cl) cs" by blast
  let ?tw2 = "?tw1\<lparr>credentials := cs\<rparr>"
  from associate_first obtain tr3 as
    where s3: "associate_credential_list (\<lambda>r. None) ?t (fst cl) ?tw2
                 = (tr3, ?tw2\<lparr>trunk_credential_lists := as\<rparr>, Inr ())"
      and p3: "is_associated ?t (fst cl) as" by blast
  let ?tw3 = "?tw2\<lparr>trunk_credential_lists := as\<rparr>"
  from origination_url_first obtain tr4 us
    where s4: "add_origination_url (\<lambda>r. None) ?t ?tw3 = (tr4, ?tw3\<lparr>origination_urls := us\<rparr>, Inr ())"
      and p4: "has_origination_url ?t us" by blast
  let ?tw4 = "?tw3\<lparr>origination_urls := us\<rparr>"
  from assms(2) have "distinct (map fst (incoming_phone_numbers ?tw4))" by simp
  from phone_number_first [OF this] obtain tr5 ns
    where s5: "associate_phone_number (\<lambda>r. None) cfg ?tw4
                 = (tr5, ?tw4\<lparr>trunk_phone_numbers := ns\<rparr>, Inr ())"
      and p5: "phone_number_settled cfg (incoming_phone_numbers ?tw4) ns" by blast
  let ?tw5 = "?tw4\<lparr>trunk_phone_numbers := ns\<rparr>"
  have run: "update_twilio_trunk_body lower (\<lambda>r. None) cfg tw = (tr1 @ tr2 @ tr3 @ tr4 @ tr5, ?tw5, Inr ())"
    unfolding update_twilio_trunk_body_def by (simp only: s1 s2 s3 s4 s5 then_do_Inr prod.case)
  from p1 p2 p3 p4 p5 have "provisioned lower cfg ?tw5"
    unfolding provisioned_def by (intro exI [of _ cl]) simp
  with run show "provisioned lower cfg (account_after (update_twilio_trunk_body lower (\<lambda>r. None) cfg tw))"
    by (simp add: account_after_def)
  from run show "result_of (update_twilio_trunk_body lower (\<lambda>r. None) cfg tw) = Inr ()"
    by (simp add: result_of_def)
qed

lemma provision_again:
  assumes "provisioned lower cfg tw"
  shows "idle tw (update_twilio_trunk_body lower fails cfg tw)"
proof -
  from assms obtain cl where p1: "has_credential_list lower (credential_lists tw) cl"
    and p2: "has_credentials cfg (fst cl) (credentials tw)"
    and p3: "is_associated (TWILIO_SIP_TRUNK_SID cfg) (fst cl) (trunk_credential_lists tw)"
    and p4: "has_origination_url (TWILIO_SIP_TRUNK_SID cfg) (origination_urls tw)"
    and p5: "phone_number_settled cfg (incoming_phone_numbers tw) (trunk_phone_numbers tw)"
    unfolding provisioned_def by blast
  show ?thesis
    unfolding update_twilio_trunk_body_def
  proof (rule idle_then_do)
    show "idle tw (find_or_create_credential_list lower fails tw)"
      using p1 by (rule credential_list_again(1))
  next
    fix v
    assume "result_of (find_or_create_credential_list lower fails tw) = Inr v"
    with p1 have v: "v = cl" by (rule credential_list_again(2))
    show "idle tw
       (then_do (add_credentials fails cfg (fst v) tw) (\<lambda>u tw.
        then_do (associate_credential_list fails (TWILIO_SIP_TRUNK_SID cfg) (fst v) tw) (\<lambda>u tw.
        then_do (add_origination_url fails (TWILIO_SIP_TRUNK_SID cfg) tw) (\<lambda>u tw.
        associate_phone_number fails cfg tw))))"
      unfolding v
      by (intro idle_then_do credentials_again associate_again origination_url_again
          phone_number_again p2 p3 p4 p5)
  qed
qed

text \<open>
  After a run in which the provider accepted every request, a second run with the same
  configuration sends no creation request and changes nothing, whatever the provider
  rejects this time.
\<close>

lemma update_rerun_after_accepted_run:
  assumes "py_in (str ''livekit'') (lower (str ''LiveKit SIP Credentials''))"
      and "distinct (map fst (incoming_phone_numbers tw))"
      and "tw1 = account_after (update_twilio_trunk_auto lower (\<lambda>r. None) cfg tw)"
  shows "account_after (update_twilio_trunk_auto lower fails cfg tw1) = tw1
       \<and> list_all (\<lambda>r. \<not> is_creation r) (requests_of (update_twilio_trunk_auto lower fails cfg tw1))"
proof -
  from assms have "provisioned lower cfg tw1"
    by (simp add: update_provision provision_first)
  then have "idle tw1 (update_twilio_trunk_body lower fails cfg tw1)" by (rule provision_again)
  then show ?thesis by (simp add: idle_def update_provision)
qed

subsection \<open>Runs that meet rejections\<close>

lemma grows_refl: "grows tw tw"
  by (simp add: grows_def)

lemma grows_trans: "grows a b \<Longrightarrow> grows b c \<Longrightarrow> grows a c"
  by (auto simp add: grows_def)

lemma present_mono: "grows tw tw' \<Longrightarrow> present tw r \<Longrightarrow> present tw' r"
  by (cases r) (auto simp add: grows_def list_ex_iff)

lemma careful_then_do:
  assumes x: "careful fails tw x"
    and d: "distinct (map fst (incoming_phone_numbers tw))"
    and f: "\<And>v tw'. distinct (map fst (incoming_phone_numbers tw')) \<Longrightarrow>
              careful fails tw' (f v tw')"
  shows "careful fails tw (then_do x f)"
proof -
  obtain tr tw' res where x_eq: "x = (tr, tw', res)" by (cases x) auto
  from x x_eq have g: "grows tw tw'"
    and before: "\<And>r. r \<in> set tr \<Longrightarrow> is_creation r \<Longrightarrow> \<not> present tw r"
    and after: "\<And>r. r \<in> set tr \<Longrightarrow> is_creation r \<Longrightarrow> fails r = None \<Longrightarrow> present tw' r"
    by (auto simp add: careful_def account_after_def requests_of_def)
  show ?thesis
  proof (cases res)
    case (Inl e)
    with x_eq have "then_do x f = (tr, tw', Inl e)" by (simp add: then_do_def)
    with g before after show ?thesis
      by (auto simp add: careful_def account_after_def requests_of_def)
  next
    case (Inr v)
    obtain tr2 tw2 r2 where f_eq: "f v tw' = (tr2, tw2, r2)" by (cases "f v tw'") auto
    from g d have "distinct (map fst (incoming_phone_numbers tw'))" by (simp add: grows_def)
    from f [OF this, of v] f_eq have g2: "grows tw' tw2"
      and before2: "\<And>r. r \<in> set tr2 \<Longrightarrow> is_creation r \<Longrightarrow> \<not> present tw' r"
      and after2: "\<And>r. r \<in> set tr2 \<Longrightarrow> is_creation r \<Longrightarrow> fails r = None \<Longrightarrow> present tw2 r"
      by (auto simp add: careful_def account_after_def requests_of_def)
    have eq: "then_do x f = (tr @ tr2, tw2, r2)"
      using x_eq Inr f_eq by (simp add: then_do_def)
    have "grows tw tw2" using g g2 by (rule grows_trans)
    moreover have "\<not> present tw r" if "r \<in> set (tr @ tr2)" "is_creation r" for r
      using that before before2 present_mono [OF g] by auto
    moreover have "present tw2 r" if "r \<in> set (tr @ tr2)" "is_creation r" "fails r = None" for r
      using that after after2 present_mono [OF g2] by auto
    ultimately show ?thesis
      unfolding eq careful_def account_after_def requests_of_def by auto
  qed
qed

lemma find_None_iff_set: "find P xs = None \<longleftrightarrow> (\<forall>x \<in> set xs. \<not> P x)"
  by (induction xs) auto

lemma credential_list_careful:
  assumes "py_in (str ''livekit'') (lower (str ''LiveKit SIP Credentials''))"
  shows "careful fails tw (find_or_create_credential_list lower fails tw)"
  using assms
  by (auto simp add: find_or_create_credential_list_def credential_lists_list_def
      credential_lists_create_def request_def then_do_def pure_run_def careful_def grows_def
      account_after_def requests_of_def find_None_iff_set list_ex_iff split: option.splits)

lemma credentials_careful: "careful fails tw (add_credentials fails cfg l tw)"
  by (auto simp add: add_credentials_def credentials_list_def credentials_create_def
      request_def then_do_def pure_run_def careful_def grows_def account_after_def
      requests_of_def list_ex_iff split: option.splits) blast+

lemma associate_careful: "careful fails tw (associate_credential_list fails t l tw)"
  by (auto simp add: associate_credential_list_def trunk_credential_lists_list_def
      trunk_credential_lists_create_def request_def then_do_def pure_run_def careful_def
      grows_def account_after_def requests_of_def list_ex_iff split: option.splits) force+

lemma origination_url_careful: "careful fails tw (add_origination_url fails t tw)"
  by (auto simp add: add_origination_url_def origination_urls_list_def
      origination_urls_create_def request_def then_do_def pure_run_def careful_def
      grows_def account_after_def requests_of_def list_ex_iff livekit_origination_url_def
      py_in_refl split: option.splits)

lemma phone_number_careful:
  assumes "distinct (map fst (incoming_phone_numbers tw))"
  shows "careful fails tw (associate_phone_number fails cfg tw)"
proof -
  let ?number = "the (TWILIO_PHONE_NUMBER cfg)"
  let ?found = "filter (\<lambda>n. snd n = ?number) (incoming_phone_numbers tw)"
  have m: "?found \<noteq> [] \<Longrightarrow>
           map_of (incoming_phone_numbers tw) (fst (hd ?found)) = Some ?number"
    using assms by (rule map_of_hd_filter)
  show ?thesis
    using m
    by (auto simp add: associate_phone_number_def create_associate_phone_number_def
        trunk_phone_numbers_list_def incoming_phone_numbers_list_def
        trunk_phone_numbers_create_def request_def then_do_def pure_run_def careful_def
        grows_def account_after_def requests_of_def list_ex_iff split: option.splits)
      blast+
qed

lemma update_body_careful:
  assumes "py_in (str ''livekit'') (lower (str ''LiveKit SIP Credentials''))"
      and "distinct (map fst (incoming_phone_numbers tw))"
  shows "careful fails tw (update_twilio_trunk_body lower fails cfg tw)"
  unfolding update_twilio_trunk_body_def
  by (intro careful_then_do credential_list_careful credentials_careful associate_careful
      origination_url_careful phone_number_careful assms)

text \<open>
  Claim C7, as amended. Take two runs of the update script with the same configuration,
  the second on the account the first left, and let the provider reject whatever it
  rejects in either. No creation request of the second run is for a resource the account
  held when that run began, and none repeats a creation request the provider accepted in
  the first run: the second run creates no duplicate. (The account's numbers have
  distinct identifiers, and the lowered name of the script's credential list contains
  \<^verbatim>\<open>livekit\<close>.)
\<close>

theorem update_rerun_creates_no_duplicate:
  assumes "py_in (str ''livekit'') (lower (str ''LiveKit SIP Credentials''))"
      and "distinct (map fst (incoming_phone_numbers tw))"
      and "run1 = update_twilio_trunk_auto lower fails1 cfg tw"
      and "run2 = update_twilio_trunk_auto lower fails2 cfg (account_after run1)"
      and "r \<in> set (requests_of run2)" and "is_creation r"
  shows "\<not> present (account_after run1) r \<and>
         \<not> (r \<in> set (requests_of run1) \<and> fails1 r = None)"
proof -
  let ?body1 = "update_twilio_trunk_body lower fails1 cfg tw"
  let ?tw1 = "account_after ?body1"
  let ?body2 = "update_twilio_trunk_body lower fails2 cfg ?tw1"
  have tw1: "account_after run1 = ?tw1" and tr1: "requests_of run1 = requests_of ?body1"
    by (simp_all add: assms(3) update_provision)
  have tr2: "requests_of run2 = requests_of ?body2"
    by (simp add: assms(3,4) update_provision)
  have c1: "careful fails1 tw ?body1"
    using assms(1,2) by (rule update_body_careful)
  then have "distinct (map fst (incoming_phone_numbers ?tw1))"
    using assms(2) by (simp add: careful_def grows_def)
  with assms(1) have c2: "careful fails2 ?tw1 ?body2"
    by (rule update_body_careful)
  from c2 assms(5,6) have absent: "\<not> present ?tw1 r"
    by (simp add: careful_def tr2)
  moreover have "\<not> (r \<in> set (requests_of ?body1) \<and> fails1 r = None)"
    using c1 absent assms(6) by (auto simp add: careful_def)
  ultimately show ?thesis by (simp add: tw1 tr1)
qed

lemma livekit_in_lower: "py_in (str ''livekit'') (ascii_lower (str ''LiveKit SIP Credentials''))"
  by (simp add: str_def cp_def ascii_lower_def startswith_def)

lemma phone_neq: "str ''+14155551234'' \<noteq> []"
  by (simp add: str_def)

lemma example_config_fields:
  "TWILIO_PHONE_NUMBER example_config = Some (str ''+14155551234'')"
  "TWILIO_SIP_TRUNK_SID example_config = 1"
  "TWILIO_SIP_USERNAME example_config = str ''agent''"
  "TWILIO_SIP_PASSWORD example_config = str ''secret''"
  by (simp_all add: example_config_def)

lemmas update_eval =
  update_twilio_trunk_auto_def update_twilio_trunk_body_def
  find_or_create_credential_list_def add_credentials_def associate_credential_list_def
  add_origination_url_def associate_phone_number_def create_associate_phone_number_def
  credential_lists_list_def credential_lists_create_def credentials_list_def
  credentials_create_def trunk_credential_lists_list_def trunk_credential_lists_create_def
  origination_urls_list_def origination_urls_create_def trunk_phone_numbers_list_def
  trunk_phone_numbers_create_def incoming_phone_numbers_list_def request_def
  then_do_def pure_run_def example_config_fields example_account_def is_falsy_def
  phone_neq LIVEKIT_SIP_URI_def accepting_provider_def

text \<open>The script on the example account: accepted throughout, and met by a rejection.\<close>

lemma update_example:
  "update_twilio_trunk_auto ascii_lower (\<lambda>r. None) example_config example_account =
     ([CredentialListsList, CredentialListsCreate (str ''LiveKit SIP Credentials''),
       CredentialsList 3, CredentialsCreate 3 (str ''agent'') (str ''secret''),
       TrunkCredentialListsList 1, TrunkCredentialListsCreate 1 3,
       OriginationUrlsList 1,
       OriginationUrlsCreate 1 (livekit_origination_url (str ''sip:sip.livekit.cloud'')),
       TrunkPhoneNumbersList 1, IncomingPhoneNumbersList (str ''+14155551234''),
       TrunkPhoneNumbersCreate 1 2],
      example_account
        \<lparr>credential_lists := [(3, str ''LiveKit SIP Credentials'')],
         credentials := [(3, str ''agent'', str ''secret'')],
         trunk_credential_lists := [(1, 3)],
         origination_urls := [(1, livekit_origination_url (str ''sip:sip.livekit.cloud''))],
         trunk_phone_numbers := [(1, 2, str ''+14155551234'')],
         next_sid := 4\<rparr>,
      Completed)"
  by (simp add: update_eval)

lemma rejected_run_eq:
  "rejected_run =
     ([CredentialListsList, CredentialListsCreate (str ''LiveKit SIP Credentials''),
       CredentialsList 3, CredentialsCreate 3 (str ''agent'') (str ''secret''),
       TrunkCredentialListsList 1, TrunkCredentialListsCreate 1 3,
       OriginationUrlsList 1,
       OriginationUrlsCreate 1 (livekit_origination_url (str ''sip:sip.livekit.cloud''))],
      example_account
        \<lparr>credential_lists := [(3, str ''LiveKit SIP Credentials'')],
         credentials := [(3, str ''agent'', str ''secret'')],
         trunk_credential_lists := [(1, 3)],
         next_sid := 4\<rparr>,
      Exit 1)"
  by (simp add: rejected_run_def rejecting_origination_urls_def update_eval)

lemma rerun_eq:
  "rerun =
     ([CredentialListsList, CredentialsList 3, TrunkCredentialListsList 1,
       OriginationUrlsList 1,
       OriginationUrlsCreate 1 (livekit_origination_url (str ''sip:sip.livekit.cloud'')),
       TrunkPhoneNumbersList 1, IncomingPhoneNumbersList (str ''+14155551234''),
       TrunkPhoneNumbersCreate 1 2],
      example_account
        \<lparr>credential_lists := [(3, str ''LiveKit SIP Credentials'')],
         credentials := [(3, str ''agent'', str ''secret'')],
         trunk_credential_lists := [(1, 3)],
         origination_urls := [(1, livekit_origination_url (str ''sip:sip.livekit.cloud''))],
         trunk_phone_numbers := [(1, 2, str ''+14155551234'')],
         next_sid := 4\<rparr>,
      Completed)"
  by (simp add: rerun_def rejected_run_eq account_after_def update_eval livekit_in_lower)

theorem update_rerun_creates_no_duplicate_witness:
  "py_in (str ''livekit'') (ascii_lower (str ''LiveKit SIP Credentials'')) \<and>
   distinct (map fst (incoming_phone_numbers example_account)) \<and>
   OriginationUrlsCreate 1 (livekit_origination_url (str ''sip:sip.livekit.cloud''))
     \<in> set (requests_of rerun) \<and>
   is_creation
     (OriginationUrlsCreate 1 (livekit_origination_url (str ''sip:sip.livekit.cloud''))) \<and>
   OriginationUrlsCreate 1 (livekit_origination_url (str ''sip:sip.livekit.cloud''))
     \<in> set (requests_of rejected_run) \<and>
   rejecting_origination_urls
     (OriginationUrlsCreate 1 (livekit_origination_url (str ''sip:sip.livekit.cloud'')))
     \<noteq> None \<and>
   \<not> present (account_after rejected_run)
       (OriginationUrlsCreate 1 (livekit_origination_url (str ''sip:sip.livekit.cloud'')))"
proof -
  let ?r = "OriginationUrlsCreate 1 (livekit_origination_url (str ''sip:sip.livekit.cloud''))"
  have d: "distinct (map fst (incoming_phone_numbers example_account))"
    by (simp add: example_account_def)
  have m: "?r \<in> set (requests_of rerun)" "?r \<in> set (requests_of rejected_run)"
    by (simp_all add: rerun_eq rejected_run_eq requests_of_def)
  have c: "is_creation ?r" by simp
  from update_rerun_creates_no_duplicate
         [OF livekit_in_lower d rejected_run_def rerun_def m(1) c]
  show ?thesis
    using d m by (simp add: livekit_in_lower rejecting_origination_urls_def)
qed

lemma create_example_valid: "validate_twilio_config example_config = Inr True"
  by (simp add: validate_twilio_config_def example_config_def is_falsy_def str_def)

lemmas create_eval =
  create_twilio_trunk_def create_example_valid create_associate_phone_number_def
  trunks_create_def credential_lists_create_def credentials_create_def
  trunk_credential_lists_create_def origination_urls_create_def
  trunk_phone_numbers_create_def incoming_phone_numbers_list_def request_def
  then_do_def pure_run_def example_config_fields example_account_def is_falsy_def
  phone_neq account_after_def accepting_provider_def

text \<open>
  One call of \<^verbatim>\<open>create_twilio_trunk\<close> on the example account: three resources are
  created, and reading \<^verbatim>\<open>credential_lists\<close> on the trunk context ends the call.
\<close>

lemma create_twilio_trunk_example:
  "create_twilio_trunk accepting_provider example_config (str ''livekit-trunk'')
     (str ''livekit.pstn.twilio.com'') (str ''sip:sip.livekit.cloud'') (str ''agent'')
     (str ''secret'') example_account =
     ([TrunksCreate (str ''livekit-trunk'') (str ''livekit.pstn.twilio.com''),
       CredentialListsCreate (str ''livekit-trunk'' @ str ''-credentials''),
       CredentialsCreate 4 (str ''agent'') (str ''secret'')],
      example_account
        \<lparr>trunks := [(1, str ''trunk'', str ''trunk.pstn.twilio.com''),
                    (3, str ''livekit-trunk'', str ''livekit.pstn.twilio.com'')],
         credential_lists := [(4, str ''livekit-trunk'' @ str ''-credentials'')],
         credentials := [(4, str ''agent'', str ''secret'')],
         next_sid := 5\<rparr>,
      Inl AttributeError)"
  by (simp add: create_eval)

lemma created_once_eq:
  "created_once =
     example_account
        \<lparr>trunks := [(1, str ''trunk'', str ''trunk.pstn.twilio.com''),
                    (3, str ''livekit-trunk'', str ''livekit.pstn.twilio.com'')],
         credential_lists := [(4, str ''livekit-trunk'' @ str ''-credentials'')],
         credentials := [(4, str ''agent'', str ''secret'')],
         next_sid := 5\<rparr>"
  by (simp add: created_once_def create_twilio_trunk_example account_after_def)

text \<open>
  \<^verbatim>\<open>create_twilio_trunk\<close> looks nothing up before it creates. Called a second time with the
  same arguments, on the account the first call left, it asks again for the trunk, the
  credential list and the credential, which the account holds already, and the account
  then holds each of them twice.
\<close>

theorem create_twilio_trunk_rerun_duplicates:
  "present created_once
     (CredentialListsCreate (str ''livekit-trunk'' @ str ''-credentials'')) \<and>
   create_twilio_trunk accepting_provider example_config (str ''livekit-trunk'')
     (str ''livekit.pstn.twilio.com'') (str ''sip:sip.livekit.cloud'') (str ''agent'')
     (str ''secret'') created_once =
     ([TrunksCreate (str ''livekit-trunk'') (str ''livekit.pstn.twilio.com''),
       CredentialListsCreate (str ''livekit-trunk'' @ str ''-credentials''),
       CredentialsCreate 6 (str ''agent'') (str ''secret'')],
      example_account
        \<lparr>trunks := [(1, str ''trunk'', str ''trunk.pstn.twilio.com''),
                    (3, str ''livekit-trunk'', str ''livekit.pstn.twilio.com''),
                    (5, str ''livekit-trunk'', str ''livekit.pstn.twilio.com'')],
         credential_lists := [(4, str ''livekit-trunk'' @ str ''-credentials''),
                              (6, str ''livekit-trunk'' @ str ''-credentials'')],
         credentials := [(4, str ''agent'', str ''secret''), (6, str ''agent'', str ''secret'')],
         next_sid := 7\<rparr>,
      Inl AttributeError)"
  by (simp add: created_once_eq create_eval)

end
